theory Spec2Isabelle
  imports Main "HOL-Library.Multiset"
begin

section \<open>The board query interface\<close>

text \<open>
  \<^verbatim>\<open>tactics/selfatari.c\<close> reads the board through \<^verbatim>\<open>board.h\<close>, which is
  not among the sources. Every query it uses is a field of the record \<open>board\<close>; the
  classifier is a function of these answers and never writes to the board.
  Coordinates and group ids are C integers; the group id \<open>0\<close> is "no group".
\<close>

datatype stone = S_NONE | S_BLACK | S_WHITE | S_OFFBOARD

type_synonym coord = int
type_synonym group = int

datatype error = Assert_Fail | Out_Of_Bounds

record board =
  board_at :: "coord \<Rightarrow> stone"
  group_at :: "coord \<Rightarrow> group"
  libs :: "group \<Rightarrow> int"
  lib :: "group \<Rightarrow> nat \<Rightarrow> coord"
  board_group_other_lib :: "group \<Rightarrow> coord \<Rightarrow> coord"
  coord_is_adjecent :: "coord \<Rightarrow> coord \<Rightarrow> bool"
  immediate_liberty_count :: "coord \<Rightarrow> int"
  neighbor_count_at :: "coord \<Rightarrow> stone \<Rightarrow> int"
  board_is_one_point_eye :: "coord \<Rightarrow> stone \<Rightarrow> bool"
  board_is_false_eyelike :: "coord \<Rightarrow> stone \<Rightarrow> bool"
  group_is_onestone :: "group \<Rightarrow> bool"
  foreach_neighbor :: "coord \<Rightarrow> coord list"

text \<open>
  Modelled from the spec: \<^verbatim>\<open>stone_other\<close> is declared in \<^verbatim>\<open>stone.h\<close>, which is
  missing; it is the opponent's colour, and the two pseudo-colours are left alone.
\<close>

fun stone_other :: "stone \<Rightarrow> stone" where
  "stone_other S_BLACK = S_WHITE"
| "stone_other S_WHITE = S_BLACK"
| "stone_other S_NONE = S_NONE"
| "stone_other S_OFFBOARD = S_OFFBOARD"

text \<open>Modelled from the spec: \<^verbatim>\<open>pass\<close> ("no suggestion") is declared in \<^verbatim>\<open>move.h\<close>.\<close>

definition pass :: coord where
  "pass = - 1"

section \<open>The classification state\<close>

text \<open>
  \<^verbatim>\<open>struct selfatari_state\<close>. The two arrays \<^verbatim>\<open>groupcts[S_MAX]\<close> and
  \<^verbatim>\<open>groupids[S_MAX][4]\<close> are one list per colour: the list holds the ids written so
  far and its length is the count.
\<close>

record selfatari_state =
  groupids :: "stone \<Rightarrow> group list"
  friend_has_no_libs :: bool
  needs_more_lib :: group
  needs_more_lib_except :: coord

definition groupcts :: "selfatari_state \<Rightarrow> stone \<Rightarrow> int" where
  "groupcts s color = int (length (groupids s color))"

text \<open>\<^verbatim>\<open>memset(&s, 0, sizeof(s))\<close>\<close>

definition state0 :: selfatari_state where
  "state0 = \<lparr>groupids = (\<lambda>_. []), friend_has_no_libs = False,
             needs_more_lib = 0, needs_more_lib_except = 0\<rparr>"

section \<open>three\_liberty\_suicide\<close>

text \<open>
  The first loop copies the liberties other than \<open>to\<close> into \<^verbatim>\<open>other_libs[2]\<close>. With
  three of them it writes past the array, with fewer than two the later reads are of
  uninitialised memory: both are \<open>Out_Of_Bounds\<close>.
\<close>

definition other_libs :: "board \<Rightarrow> group \<Rightarrow> coord \<Rightarrow> coord list" where
  "other_libs b g to = filter (\<lambda>l. l \<noteq> to) [lib b g 0, lib b g 1, lib b g 2]"

text \<open>The \<^verbatim>\<open>foreach_neighbor\<close> block of the last loop: a friend to connect to.\<close>

definition can_connect :: "board \<Rightarrow> stone \<Rightarrow> group \<Rightarrow> coord \<Rightarrow> bool" where
  "can_connect b color g l =
     list_ex (\<lambda>c. board_at b c = color \<and> group_at b c \<noteq> g \<and> libs b (group_at b c) > 1)
       (foreach_neighbor b l)"

text \<open>
  One round of the last loop for \<open>li = other_libs[i]\<close> and \<open>lo = other_libs[1 - i]\<close>:
  \<open>Some v\<close> is \<^verbatim>\<open>return v\<close>, \<open>None\<close> is \<^verbatim>\<open>continue\<close>.
\<close>

definition lib_round :: "board \<Rightarrow> stone \<Rightarrow> group \<Rightarrow> coord \<Rightarrow> coord \<Rightarrow> int \<Rightarrow> bool option" where
  "lib_round b color g li lo null_libs =
     (if board_is_one_point_eye b lo color then Some False
      else if immediate_liberty_count b li - null_libs > 1 then None
      else if can_connect b color g li then None
      else Some True)"

fun enemy_short_of_libs :: "board \<Rightarrow> group list \<Rightarrow> bool" where
  "enemy_short_of_libs b [] = False"
| "enemy_short_of_libs b (g # gs) = (if libs b g \<le> 2 then True else enemy_short_of_libs b gs)"

definition three_liberty_suicide ::
  "board \<Rightarrow> group \<Rightarrow> stone \<Rightarrow> coord \<Rightarrow> selfatari_state \<Rightarrow> error + bool" where
  "three_liberty_suicide b g color to s =
     (case other_libs b g to of
        [l0, l1] \<Rightarrow>
          (let adj0 = coord_is_adjecent b l0 to;
               adj1 = coord_is_adjecent b l1 to
           in if immediate_liberty_count b to - of_bool (adj0 \<or> adj1) > 0 then Inr False
              else if adj0 \<and> adj1 then Inl Assert_Fail
              else if groupcts s color > 1 then Inr False
              else if enemy_short_of_libs b (groupids s (stone_other color)) then Inr False
              else
                (let other_libs_neighbors = coord_is_adjecent b l0 l1 in
                 case lib_round b color g l0 l1 (of_bool other_libs_neighbors + of_bool adj0) of
                   Some v \<Rightarrow> Inr v
                 | None \<Rightarrow>
                    (case lib_round b color g l1 l0 (of_bool other_libs_neighbors + of_bool adj1) of
                       Some v \<Rightarrow> Inr v
                     | None \<Rightarrow> Inr False)))
      | _ \<Rightarrow> Inl Out_Of_Bounds)"

section \<open>examine\_friendly\_groups\<close>

text \<open>
  The loop over \<^verbatim>\<open>s->groupids[color]\<close>. The result is the returned \<^verbatim>\<open>int\<close>
  (\<open>None\<close> for \<open>-1\<close>, \<open>Some v\<close> for the verdict \<open>v\<close>) and the state as the loop left it.
\<close>

fun friendly_loop ::
  "board \<Rightarrow> stone \<Rightarrow> coord \<Rightarrow> group list \<Rightarrow> selfatari_state
     \<Rightarrow> error + (bool option \<times> selfatari_state)" where
  "friendly_loop b color to [] s = Inr (None, s)"
| "friendly_loop b color to (g # gs) s =
     (if libs b g = 1 then
        friendly_loop b color to gs
          (if needs_more_lib s = 0 then s\<lparr>friend_has_no_libs := True\<rparr> else s)
      else if libs b g > 2 then
        (if libs b g = 3 then
           (case three_liberty_suicide b g color to s of
              Inl e \<Rightarrow> Inl e
            | Inr v \<Rightarrow> Inr (Some v, s))
         else Inr (Some False, s))
      else
        (let lib2 = board_group_other_lib b g to
         in if needs_more_lib s \<noteq> 0 \<and> needs_more_lib s \<noteq> g
                 \<and> needs_more_lib_except s \<noteq> lib2 then Inr (Some False, s)
            else if groupcts s S_NONE > 1 then Inr (Some False, s)
            else if groupcts s S_NONE > 0 \<and> \<not> coord_is_adjecent b lib2 to
              then Inr (Some False, s)
            else friendly_loop b color to gs
                   (s\<lparr>needs_more_lib := g, needs_more_lib_except := lib2,
                      friend_has_no_libs := False\<rparr>)))"

definition examine_friendly_groups ::
  "board \<Rightarrow> stone \<Rightarrow> coord \<Rightarrow> selfatari_state \<Rightarrow> error + (bool option \<times> selfatari_state)" where
  "examine_friendly_groups b color to s = friendly_loop b color to (groupids s color) s"

section \<open>examine\_enemy\_groups\<close>

text \<open>
  The loop either returns a verdict or runs to its end with a value of
  \<^verbatim>\<open>can_capture\<close>. The group id doubles as the coordinate of a stone of the group
  in \<^verbatim>\<open>neighbor_count_at(b, g, color)\<close>.
\<close>

datatype scan = Verdict bool | Scanned group

fun enemy_loop :: "board \<Rightarrow> stone \<Rightarrow> selfatari_state \<Rightarrow> group list \<Rightarrow> group \<Rightarrow> scan" where
  "enemy_loop b color s [] can_capture = Scanned can_capture"
| "enemy_loop b color s (g # gs) can_capture =
     (if libs b g > 1 then enemy_loop b color s gs can_capture
      else if groupcts s S_NONE > 0 \<or> \<not> group_is_onestone b g then Verdict False
      else if neighbor_count_at b g color + neighbor_count_at b g S_OFFBOARD = 3
              \<and> \<not> friend_has_no_libs s then Verdict False
      else if needs_more_lib s \<noteq> 0 \<or> (can_capture \<noteq> 0 \<and> can_capture \<noteq> g) then Verdict False
      else enemy_loop b color s gs g)"

definition examine_enemy_groups ::
  "board \<Rightarrow> stone \<Rightarrow> coord \<Rightarrow> selfatari_state \<Rightarrow> bool option" where
  "examine_enemy_groups b color to s =
     (case enemy_loop b color s (groupids s (stone_other color)) 0 of
        Verdict v \<Rightarrow> Some v
      | Scanned can_capture \<Rightarrow>
          if needs_more_lib s = 0 \<and> can_capture = 0 \<and> groupcts s S_NONE = 0 then Some True
          else None)"



section \<open>setup\_nakade\_or\_snapback\<close>

text \<open>
  The body of \<^verbatim>\<open>foreach_neighbor(b, lib2, ...)\<close> for one neighbour \<open>c\<close>: \<open>True\<close> is
  \<^verbatim>\<open>continue\<close>, \<open>False\<close> is \<^verbatim>\<open>goto next_group\<close>.
\<close>

definition lib2_neighbor_ok :: "board \<Rightarrow> stone \<Rightarrow> coord \<Rightarrow> group \<Rightarrow> coord \<Rightarrow> bool" where
  "lib2_neighbor_ok b color to g c =
     (if board_at b c = S_OFFBOARD then True
      else if board_at b c = S_NONE then c = to
      else
        (let g2 = group_at b c
         in if board_at b c = color then libs b g2 = 2
            else if g = g2 \<or> libs b g2 = 1 then True
            else libs b g2 = 2 \<and> (lib b g2 0 = to \<or> lib b g2 1 = to)))"

text \<open>
  The loop over the friendly groups at the end of the body: \<open>Inr True\<close> when it runs to
  its end, \<open>Inr False\<close> for \<^verbatim>\<open>goto next_group\<close>.
\<close>

fun friends_share_lib2 :: "board \<Rightarrow> coord \<Rightarrow> coord \<Rightarrow> group list \<Rightarrow> error + bool" where
  "friends_share_lib2 b to lib2 [] = Inr True"
| "friends_share_lib2 b to lib2 (g2 # gs) =
     (if \<not> libs b g2 \<le> 2 then Inl Assert_Fail
      else if libs b g2 = 2 then
        (if lib b g2 0 \<noteq> lib2 \<and> lib b g2 1 \<noteq> lib2 then Inr False
         else friends_share_lib2 b to lib2 gs)
      else if \<not> lib b g2 0 = to then Inl Assert_Fail
      else friends_share_lib2 b to lib2 gs)"

datatype nakade_step = Return_False | Next_Group

definition nakade_group ::
  "board \<Rightarrow> stone \<Rightarrow> coord \<Rightarrow> selfatari_state \<Rightarrow> group \<Rightarrow> error + nakade_step" where
  "nakade_group b color to s g =
     (if libs b g \<noteq> 2 then Inr Next_Group
      else
        (let lib2 = board_group_other_lib b g to
         in if \<not> list_all (lib2_neighbor_ok b color to g) (foreach_neighbor b lib2)
              then Inr Next_Group
            else if groupcts s color < 1 then Inr Return_False
            else if groupcts s color = 1 \<and> group_is_onestone b (groupids s color ! 0) then
              (let g2 = groupids s color ! 0
               in if \<not> libs b g2 \<le> 2 then Inl Assert_Fail
                  else if libs b g2 = 1 then Inr Return_False
                  else Inr Next_Group)
            else
              (case friends_share_lib2 b to lib2 (groupids s color) of
                 Inl e \<Rightarrow> Inl e
               | Inr True \<Rightarrow> Inr Return_False
               | Inr False \<Rightarrow> Inr Next_Group)))"

fun nakade_loop ::
  "board \<Rightarrow> stone \<Rightarrow> coord \<Rightarrow> selfatari_state \<Rightarrow> group list \<Rightarrow> error + bool option" where
  "nakade_loop b color to s [] = Inr None"
| "nakade_loop b color to s (g # gs) =
     (case nakade_group b color to s g of
        Inl e \<Rightarrow> Inl e
      | Inr Return_False \<Rightarrow> Inr (Some False)
      | Inr Next_Group \<Rightarrow>
          if groupcts s color \<noteq> 0 then Inr None
          else nakade_loop b color to s gs)"

definition setup_nakade_or_snapback ::
  "board \<Rightarrow> stone \<Rightarrow> coord \<Rightarrow> selfatari_state \<Rightarrow> error + bool option" where
  "setup_nakade_or_snapback b color to s =
     nakade_loop b color to s (groupids s (stone_other color))"

section \<open>check\_throwin\<close>

definition escape_path :: "board \<Rightarrow> stone \<Rightarrow> coord \<Rightarrow> bool" where
  "escape_path b color to =
     list_ex (\<lambda>c. board_at b c = S_NONE
                  \<and> neighbor_count_at b c (stone_other color)
                      + neighbor_count_at b c S_OFFBOARD < 2)
       (foreach_neighbor b to)"

definition check_throwin ::
  "board \<Rightarrow> stone \<Rightarrow> coord \<Rightarrow> selfatari_state \<Rightarrow> error + bool option" where
  "check_throwin b color to s =
     (if neighbor_count_at b to S_OFFBOARD < 2
         \<and> neighbor_count_at b to (stone_other color)
             + neighbor_count_at b to S_OFFBOARD = 3
         \<and> board_is_false_eyelike b to (stone_other color) then
        (if \<not> groupcts s color \<le> 1 then Inl Assert_Fail
         else if groupcts s color = 0 then
           (if escape_path b color to then Inr None else Inr (Some False))
         else
           (let g = groupids s color ! 0
            in if \<not> libs b g \<le> 2 then Inl Assert_Fail
               else if libs b g = 1 then Inr (Some True)
               else if group_is_onestone b g then Inr (Some False)
               else Inr None))
      else Inr None)"

section \<open>is\_bad\_selfatari\_slow\<close>

text \<open>
  The collector. One neighbour \<open>c\<close>: its colour picks the bucket, its group id is
  appended unless the bucket holds it already. A bucket has four slots.
\<close>

definition collect_neighbor ::
  "board \<Rightarrow> coord \<Rightarrow> (stone \<Rightarrow> group list) \<Rightarrow> error + (stone \<Rightarrow> group list)" where
  "collect_neighbor b c ids =
     (let color = board_at b c; grp = group_at b c
      in if grp \<in> set (ids color) then Inr ids
         else if length (ids color) \<ge> 4 then Inl Out_Of_Bounds
         else Inr (ids(color := ids color @ [grp])))"

fun collect_groups ::
  "board \<Rightarrow> coord list \<Rightarrow> (stone \<Rightarrow> group list) \<Rightarrow> error + (stone \<Rightarrow> group list)" where
  "collect_groups b [] ids = Inr ids"
| "collect_groups b (c # cs) ids =
     (case collect_neighbor b c ids of
        Inl e \<Rightarrow> Inl e
      | Inr ids' \<Rightarrow> collect_groups b cs ids')"

definition collect_state :: "board \<Rightarrow> coord \<Rightarrow> error + selfatari_state" where
  "collect_state b to =
     (case collect_groups b (foreach_neighbor b to) (\<lambda>_. []) of
        Inl e \<Rightarrow> Inl e
      | Inr ids \<Rightarrow> Inr (state0\<lparr>groupids := ids\<rparr>))"

text \<open>The empty neighbours of a point, in the order they are visited.\<close>

definition empty_neighbors :: "board \<Rightarrow> coord \<Rightarrow> coord list" where
  "empty_neighbors b to = filter (\<lambda>c. board_at b c = S_NONE) (foreach_neighbor b to)"

text \<open>The analyzers in their fixed order, from the state the collector built.\<close>

definition run_analyzers ::
  "board \<Rightarrow> stone \<Rightarrow> coord \<Rightarrow> selfatari_state \<Rightarrow> error + bool" where
  "run_analyzers b color to s0 =
     (if \<not> groupcts s0 S_NONE \<le> 1 then Inl Assert_Fail
      else
        (case examine_friendly_groups b color to s0 of
           Inl e \<Rightarrow> Inl e
         | Inr (Some d, s) \<Rightarrow> Inr d
         | Inr (None, s) \<Rightarrow>
            (case examine_enemy_groups b color to s of
               Some d \<Rightarrow> Inr d
             | None \<Rightarrow>
                (case setup_nakade_or_snapback b color to s of
                   Inl e \<Rightarrow> Inl e
                 | Inr (Some d) \<Rightarrow> Inr d
                 | Inr None \<Rightarrow>
                    (case check_throwin b color to s of
                       Inl e \<Rightarrow> Inl e
                     | Inr (Some d) \<Rightarrow> Inr d
                     | Inr None \<Rightarrow> Inr True)))))"

definition is_bad_selfatari_slow :: "board \<Rightarrow> stone \<Rightarrow> coord \<Rightarrow> error + bool" where
  "is_bad_selfatari_slow b color to =
     (case collect_state b to of
        Inl e \<Rightarrow> Inl e
      | Inr s0 \<Rightarrow> run_analyzers b color to s0)"

section \<open>selfatari\_cousin\<close>

text \<open>
  Modelled from the spec: \<^verbatim>\<open>is_bad_selfatari\<close> is declared in
  \<^verbatim>\<open>tactics/selfatari.h\<close>, which is missing; the spec has the cousin selector
  classify the other liberty with the orchestrator itself.
\<close>

definition is_bad_selfatari :: "board \<Rightarrow> stone \<Rightarrow> coord \<Rightarrow> error + bool" where
  "is_bad_selfatari b color to = is_bad_selfatari_slow b color to"

text \<open>The \<^verbatim>\<open>foreach_neighbor\<close> block: no test for duplicates here.\<close>

fun cousin_groups :: "board \<Rightarrow> stone \<Rightarrow> coord list \<Rightarrow> group list" where
  "cousin_groups b color [] = []"
| "cousin_groups b color (c # cs) =
     (if board_at b c \<noteq> color then cousin_groups b color cs
      else if libs b (group_at b c) = 2 then group_at b c # cousin_groups b color cs
      else cousin_groups b color cs)"

text \<open>
  \<open>fast_random\<close> is the random source of \<^verbatim>\<open>random.h\<close>: \<open>fast_random n\<close> is the
  number it draws when asked for one below \<open>n\<close>. \<^verbatim>\<open>groups\<close> has four slots.
\<close>

definition selfatari_cousin ::
  "(nat \<Rightarrow> nat) \<Rightarrow> board \<Rightarrow> stone \<Rightarrow> coord \<Rightarrow> error + coord" where
  "selfatari_cousin fast_random b color coord =
     (let groups = cousin_groups b color (foreach_neighbor b coord);
          groups_n = length groups
      in if groups_n > 4 then Inl Out_Of_Bounds
         else if groups_n = 0 then Inr pass
         else if \<not> fast_random groups_n < groups_n then Inl Out_Of_Bounds
         else
           (let grp = groups ! fast_random groups_n;
                lib2 = board_group_other_lib b grp coord
            in case is_bad_selfatari b color lib2 of
                 Inl e \<Rightarrow> Inl e
               | Inr True \<Rightarrow> Inr pass
               | Inr False \<Rightarrow> Inr lib2))"

section \<open>Positions\<close>

text \<open>
  The positions used below are 5 x 5 boards in the engine's layout: a 7 x 7 array of
  points with a border of off-board points, the point in column \<open>x\<close> and row \<open>y\<close>
  (both from 1, row 1 on top) at index \<open>7 * y + x\<close>. A row is written as a string:
  \<open>X\<close> a black stone, \<open>O\<close> a white stone, \<open>.\<close> an empty point.
\<close>

definition pt :: "int \<Rightarrow> int \<Rightarrow> coord" where
  "pt x y = 7 * y + x"

definition stone_of_char :: "char \<Rightarrow> stone" where
  "stone_of_char ch =
     (if ch = CHR ''X'' then S_BLACK else if ch = CHR ''O'' then S_WHITE else S_NONE)"

definition grid_at :: "string list \<Rightarrow> coord \<Rightarrow> stone" where
  "grid_at rows c =
     (let x = c mod 7; y = c div 7
      in if 1 \<le> x \<and> x \<le> 5 \<and> 1 \<le> y \<and> y \<le> 5
         then stone_of_char (rows ! nat (y - 1) ! nat (x - 1))
         else S_OFFBOARD)"

text \<open>The four neighbours in the order up, left, right, down.\<close>

definition grid_neighbors :: "coord \<Rightarrow> coord list" where
  "grid_neighbors c = [c - 7, c - 1, c + 1, c + 7]"

text \<open>
  The groups of a position are a table: the id of the group (the index of one of its
  stones), its stones, and its liberties in the order of the group's liberty array.
\<close>

type_synonym group_table = "(group \<times> coord list \<times> coord list) list"

fun table_group_at :: "group_table \<Rightarrow> coord \<Rightarrow> group" where
  "table_group_at [] c = 0"
| "table_group_at ((g, stones, ls) # tab) c =
     (if c \<in> set stones then g else table_group_at tab c)"

fun table_stones :: "group_table \<Rightarrow> group \<Rightarrow> coord list" where
  "table_stones [] g = []"
| "table_stones ((g', stones, ls) # tab) g = (if g' = g then stones else table_stones tab g)"

fun table_libs :: "group_table \<Rightarrow> group \<Rightarrow> coord list" where
  "table_libs [] g = []"
| "table_libs ((g', stones, ls) # tab) g = (if g' = g then ls else table_libs tab g)"

definition table_lib :: "group_table \<Rightarrow> group \<Rightarrow> nat \<Rightarrow> coord" where
  "table_lib tab g i = (if i < length (table_libs tab g) then table_libs tab g ! i else 0)"

text \<open>
  Modelled from the spec: \<^verbatim>\<open>board.h\<close> is missing, so the answers of the query
  interface of section 6 of the spec on a position are computed here: colours from the
  rows, groups and liberties from the table, the other liberty of a group as the first
  entry of its liberty array that differs from the given point, adjacency as sharing an
  edge, the neighbour counts by counting the four neighbours, the immediate liberty count
  as the count of empty neighbours. The points that are one-point eyes or false-eyelike
  for a colour are listed by hand, and so is the order in which neighbours are visited.
\<close>

definition grid_board ::
  "string list \<Rightarrow> group_table \<Rightarrow> (coord \<times> stone) list \<Rightarrow> (coord \<times> stone) list
     \<Rightarrow> (coord \<Rightarrow> coord list) \<Rightarrow> board" where
  "grid_board rows tab eyes false_eyes order =
     \<lparr>board_at = grid_at rows,
      group_at = table_group_at tab,
      libs = (\<lambda>g. int (length (table_libs tab g))),
      lib = table_lib tab,
      board_group_other_lib =
        (\<lambda>g l. table_lib tab g (if table_lib tab g 0 \<noteq> l then 0 else 1)),
      coord_is_adjecent = (\<lambda>c1 c2. \<bar>c1 - c2\<bar> = 1 \<or> \<bar>c1 - c2\<bar> = 7),
      immediate_liberty_count =
        (\<lambda>c. int (length (filter (\<lambda>n. grid_at rows n = S_NONE) (grid_neighbors c)))),
      neighbor_count_at =
        (\<lambda>c color. int (length (filter (\<lambda>n. grid_at rows n = color) (grid_neighbors c)))),
      board_is_one_point_eye = (\<lambda>c color. (c, color) \<in> set eyes),
      board_is_false_eyelike = (\<lambda>c color. (c, color) \<in> set false_eyes),
      group_is_onestone = (\<lambda>g. length (table_stones tab g) = 1),
      foreach_neighbor = order\<rparr>"

text \<open>
  A table fits the rows when every group in it has its id among its stones, the stones
  have one colour and are looked up under that id, every empty neighbour of a stone is
  among the liberties and every neighbour of the same colour among the stones, the
  liberties are different empty points next to a stone of the group, and every stone on
  the board is in some group.
\<close>

definition stone_fits ::
  "string list \<Rightarrow> group_table \<Rightarrow> group \<Rightarrow> coord list \<Rightarrow> coord list \<Rightarrow> coord \<Rightarrow> bool" where
  "stone_fits rows tab g stones ls c =
     (grid_at rows c = grid_at rows g \<and> table_group_at tab c = g
      \<and> list_all
           (\<lambda>n. if grid_at rows n = S_NONE then n \<in> set ls
                else if grid_at rows n = grid_at rows g then n \<in> set stones
                else True)
           (grid_neighbors c))"

definition group_fits ::
  "string list \<Rightarrow> group_table \<Rightarrow> group \<times> coord list \<times> coord list \<Rightarrow> bool" where
  "group_fits rows tab entry =
     (case entry of (g, stones, ls) \<Rightarrow>
        g \<in> set stones \<and> distinct ls
        \<and> (grid_at rows g = S_BLACK \<or> grid_at rows g = S_WHITE)
        \<and> list_all (stone_fits rows tab g stones ls) stones
        \<and> list_all (\<lambda>l. grid_at rows l = S_NONE
                          \<and> list_ex (\<lambda>n. n \<in> set stones) (grid_neighbors l)) ls)"

definition table_fits :: "string list \<Rightarrow> group_table \<Rightarrow> bool" where
  "table_fits rows tab =
     (list_all (group_fits rows tab) tab
      \<and> list_all (\<lambda>c. grid_at rows c = S_NONE \<or> grid_at rows c = S_OFFBOARD
                        \<or> table_group_at tab c \<noteq> 0) (map int [0..<49]))"

text \<open>The same board with the neighbours of every point visited in the reverse order.\<close>

definition reverse_order :: "board \<Rightarrow> board" where
  "reverse_order b = b\<lparr>foreach_neighbor := (\<lambda>c. rev (foreach_neighbor b c))\<rparr>"

text \<open>A random source that always draws 0.\<close>

definition first_draw :: "nat \<Rightarrow> nat" where
  "first_draw n = 0"

subsection \<open>A ko\<close>

text \<open>
  Black to play at \<open>pt 3 3\<close>. The white stone at \<open>pt 2 3\<close> has the one liberty
  \<open>pt 3 3\<close> and three black neighbours; no black stone is next to \<open>pt 3 3\<close>.
\<close>

definition ko_rows :: "string list" where
  "ko_rows = [''.....'',
              ''.XO..'',
              ''XO.O.'',
              ''.XO..'',
              ''.....'']"

definition ko_groups :: group_table where
  "ko_groups =
     [(pt 2 2, [pt 2 2], [pt 2 1, pt 1 2]),
      (pt 1 3, [pt 1 3], [pt 1 2, pt 1 4]),
      (pt 2 4, [pt 2 4], [pt 1 4, pt 2 5]),
      (pt 2 3, [pt 2 3], [pt 3 3]),
      (pt 3 2, [pt 3 2], [pt 3 1, pt 4 2, pt 3 3]),
      (pt 4 3, [pt 4 3], [pt 4 2, pt 3 3, pt 5 3, pt 4 4]),
      (pt 3 4, [pt 3 4], [pt 3 3, pt 4 4, pt 3 5])]"

definition ko_board :: board where
  "ko_board = grid_board ko_rows ko_groups [] [] grid_neighbors"

subsection \<open>A suicide\<close>

text \<open>Black to play at \<open>pt 3 2\<close>, between four white stones of three liberties each.\<close>

definition su_rows :: "string list" where
  "su_rows = [''..O..'',
              ''.O.O.'',
              ''..O..'',
              ''.....'',
              ''.....'']"

definition su_groups :: group_table where
  "su_groups =
     [(pt 3 1, [pt 3 1], [pt 2 1, pt 4 1, pt 3 2]),
      (pt 2 2, [pt 2 2], [pt 2 1, pt 1 2, pt 3 2, pt 2 3]),
      (pt 4 2, [pt 4 2], [pt 4 1, pt 3 2, pt 5 2, pt 4 3]),
      (pt 3 3, [pt 3 3], [pt 3 2, pt 2 3, pt 4 3, pt 3 4])]"

definition su_board :: board where
  "su_board = grid_board su_rows su_groups [] [] grid_neighbors"

subsection \<open>Two friends with different second liberties\<close>

text \<open>
  Black to play at \<open>pt 3 3\<close>. The black stone above has the liberties \<open>pt 3 1\<close> and
  \<open>pt 3 3\<close>, the black stone below has \<open>pt 3 3\<close> and \<open>pt 3 5\<close>.
\<close>

definition two_rows :: "string list" where
  "two_rows = [''.O.O.'',
               ''.OXO.'',
               ''.O.O.'',
               ''.OXO.'',
               ''.....'']"

definition two_groups :: group_table where
  "two_groups =
     [(pt 3 2, [pt 3 2], [pt 3 1, pt 3 3]),
      (pt 3 4, [pt 3 4], [pt 3 3, pt 3 5]),
      (pt 2 1, [pt 2 1, pt 2 2, pt 2 3, pt 2 4],
         [pt 1 1, pt 3 1, pt 1 2, pt 1 3, pt 3 3, pt 1 4, pt 2 5]),
      (pt 4 1, [pt 4 1, pt 4 2, pt 4 3, pt 4 4],
         [pt 3 1, pt 5 1, pt 5 2, pt 3 3, pt 5 3, pt 5 4, pt 4 5])]"

definition two_board :: board where
  "two_board = grid_board two_rows two_groups [] [] grid_neighbors"

subsection \<open>A friend and an outside liberty\<close>

text \<open>
  Black to play at \<open>pt 3 3\<close>, whose one empty neighbour is \<open>pt 4 3\<close>. The black stone
  above has the liberties \<open>pt 3 1\<close> and \<open>pt 3 3\<close>.
\<close>

definition out_rows :: "string list" where
  "out_rows = [''.....'',
               ''.OXO.'',
               ''.O...'',
               ''.OOO.'',
               ''.....'']"

definition out_groups :: group_table where
  "out_groups =
     [(pt 3 2, [pt 3 2], [pt 3 1, pt 3 3]),
      (pt 2 2, [pt 2 2, pt 2 3, pt 2 4, pt 3 4, pt 4 4],
         [pt 2 1, pt 1 2, pt 1 3, pt 3 3, pt 1 4, pt 2 5, pt 3 5, pt 4 5, pt 4 3, pt 5 4]),
      (pt 4 2, [pt 4 2], [pt 4 1, pt 5 2, pt 4 3])]"

definition out_board :: board where
  "out_board = grid_board out_rows out_groups [] [] grid_neighbors"

subsection \<open>A group with one eye and two outside liberties\<close>

text \<open>
  Black to play at \<open>pt 3 2\<close>. The black group has the three liberties \<open>pt 1 1\<close> (a
  one-point eye in the corner), \<open>pt 3 2\<close> and \<open>pt 2 3\<close>. The two boards differ only in
  the order of the group's liberty array.
\<close>

definition eye_rows :: "string list" where
  "eye_rows = [''.XOO.'',
               ''XX.O.'',
               ''O.O..'',
               ''.....'',
               ''.....'']"

definition eye_groups :: "coord list \<Rightarrow> group_table" where
  "eye_groups black_libs =
     [(pt 2 1, [pt 2 1, pt 1 2, pt 2 2], black_libs),
      (pt 3 1, [pt 3 1, pt 4 1, pt 4 2], [pt 3 2, pt 5 1, pt 5 2, pt 4 3]),
      (pt 3 3, [pt 3 3], [pt 3 2, pt 2 3, pt 4 3, pt 3 4]),
      (pt 1 3, [pt 1 3], [pt 2 3, pt 1 4])]"

definition eye_first_board :: board where
  "eye_first_board =
     grid_board eye_rows (eye_groups [pt 1 1, pt 3 2, pt 2 3]) [(pt 1 1, S_BLACK)] []
       grid_neighbors"

definition eye_last_board :: board where
  "eye_last_board =
     grid_board eye_rows (eye_groups [pt 2 3, pt 3 2, pt 1 1]) [(pt 1 1, S_BLACK)] []
       grid_neighbors"

subsection \<open>A nakade\<close>

text \<open>
  Black to play at \<open>pt 3 2\<close>. The two black stones above have the liberties \<open>pt 3 2\<close>
  and \<open>pt 4 2\<close>; so has the white group of five stones to the right and below. The
  white group of two stones to the left has the liberties \<open>pt 1 2\<close> and \<open>pt 3 2\<close>.
  After the move the black group of three stones has the one liberty \<open>pt 4 2\<close>.
\<close>

definition nk_rows :: "string list" where
  "nk_rows = [''XOXXO'',
              ''.O..O'',
              ''.XOOO'',
              ''.XXXX'',
              ''.....'']"

definition nk_groups :: group_table where
  "nk_groups =
     [(pt 1 1, [pt 1 1], [pt 1 2]),
      (pt 2 1, [pt 2 1, pt 2 2], [pt 1 2, pt 3 2]),
      (pt 3 1, [pt 3 1, pt 4 1], [pt 3 2, pt 4 2]),
      (pt 5 1, [pt 5 1, pt 5 2, pt 5 3, pt 4 3, pt 3 3], [pt 4 2, pt 3 2]),
      (pt 2 3, [pt 2 3, pt 2 4, pt 3 4, pt 4 4, pt 5 4],
         [pt 1 3, pt 1 4, pt 2 5, pt 3 5, pt 4 5, pt 5 5])]"

definition nk_board :: board where
  "nk_board = grid_board nk_rows nk_groups [] [] grid_neighbors"

text \<open>The same position with the neighbours visited down, right, left, up.\<close>

definition nk_board_rev :: board where
  "nk_board_rev = reverse_order nk_board"

subsection \<open>A throw-in\<close>

text \<open>
  Black to play at \<open>pt 3 5\<close> on the lower edge, next to the single black stone at
  \<open>pt 4 5\<close> with the liberties \<open>pt 3 5\<close> and \<open>pt 5 5\<close>. The black stone at \<open>pt 2 4\<close>
  makes the point false-eyelike for White.
\<close>

definition th_rows :: "string list" where
  "th_rows = [''.....'',
              ''.....'',
              ''.....'',
              ''.XOO.'',
              ''.O.X.'']"

definition th_groups :: group_table where
  "th_groups =
     [(pt 4 5, [pt 4 5], [pt 3 5, pt 5 5]),
      (pt 2 4, [pt 2 4], [pt 2 3, pt 1 4]),
      (pt 3 4, [pt 3 4, pt 4 4], [pt 3 3, pt 4 3, pt 5 4, pt 3 5]),
      (pt 2 5, [pt 2 5], [pt 1 5, pt 3 5])]"

definition th_board :: board where
  "th_board = grid_board th_rows th_groups [] [(pt 3 5, S_WHITE)] grid_neighbors"

subsection \<open>A throw-in with no friend\<close>

text \<open>
  Black to play at \<open>pt 3 1\<close> on the upper edge; no black stone is next to it. The
  white stone to the left has the liberties \<open>pt 1 1\<close> and \<open>pt 3 1\<close>, and \<open>pt 1 1\<close>
  has the empty neighbour \<open>pt 1 2\<close>. The white group of four stones below and to the
  right has the liberties \<open>pt 4 1\<close> and \<open>pt 3 1\<close>, and \<open>pt 4 1\<close> lies inside it.
\<close>

definition edge_rows :: "string list" where
  "edge_rows = [''.O..O'',
                ''.XOOO'',
                ''.XXXX'',
                ''.....'',
                ''.....'']"

definition edge_groups :: group_table where
  "edge_groups =
     [(pt 2 1, [pt 2 1], [pt 1 1, pt 3 1]),
      (pt 5 1, [pt 5 1, pt 5 2, pt 4 2, pt 3 2], [pt 4 1, pt 3 1]),
      (pt 2 2, [pt 2 2, pt 2 3, pt 3 3, pt 4 3, pt 5 3],
         [pt 1 2, pt 1 3, pt 2 4, pt 3 4, pt 4 4, pt 5 4])]"

definition edge_board :: board where
  "edge_board = grid_board edge_rows edge_groups [] [] grid_neighbors"

subsection \<open>A self-atari with a better cousin\<close>

text \<open>
  Black to play at \<open>pt 2 3\<close>, next to the black stone \<open>pt 3 3\<close> with the liberties
  \<open>pt 2 3\<close> and \<open>pt 4 3\<close>: the two stones are left with the one liberty \<open>pt 4 3\<close>.
  Playing at \<open>pt 4 3\<close> instead leaves the liberties \<open>pt 2 3\<close> and \<open>pt 5 3\<close>.
\<close>

definition ext_rows :: "string list" where
  "ext_rows = [''.....'',
               ''.OOO.'',
               ''O.X..'',
               ''.OOO.'',
               ''.....'']"

definition ext_groups :: group_table where
  "ext_groups =
     [(pt 3 3, [pt 3 3], [pt 2 3, pt 4 3]),
      (pt 2 2, [pt 2 2, pt 3 2, pt 4 2],
         [pt 2 1, pt 3 1, pt 4 1, pt 1 2, pt 5 2, pt 2 3, pt 4 3]),
      (pt 1 3, [pt 1 3], [pt 1 2, pt 2 3, pt 1 4]),
      (pt 2 4, [pt 2 4, pt 3 4, pt 4 4],
         [pt 1 4, pt 5 4, pt 2 5, pt 3 5, pt 4 5, pt 2 3, pt 4 3])]"

definition ext_board :: board where
  "ext_board = grid_board ext_rows ext_groups [] [] grid_neighbors"

section \<open>The states of the scans on these positions\<close>

text \<open>The four buckets of a state: empty points, black, white, off-board.\<close>

fun buckets ::
  "group list \<Rightarrow> group list \<Rightarrow> group list \<Rightarrow> group list \<Rightarrow> stone \<Rightarrow> group list" where
  "buckets none black white off S_NONE = none"
| "buckets none black white off S_BLACK = black"
| "buckets none black white off S_WHITE = white"
| "buckets none black white off S_OFFBOARD = off"

text \<open>The ko, at \<open>pt 3 3\<close>: four white groups, the second is the stone in atari.\<close>

definition ko_state :: selfatari_state where
  "ko_state = state0\<lparr>groupids := buckets [] [] [pt 3 2, pt 2 3, pt 4 3, pt 3 4] []\<rparr>"

text \<open>The suicide, at \<open>pt 3 2\<close>.\<close>

definition su_state :: selfatari_state where
  "su_state = state0\<lparr>groupids := buckets [] [] [pt 3 1, pt 2 2, pt 4 2, pt 3 3] []\<rparr>"

text \<open>
  The two friends, at \<open>pt 3 3\<close>: as collected, and after the friendly scan has looked
  at the first friend.
\<close>

definition two_state :: selfatari_state where
  "two_state = state0\<lparr>groupids := buckets [] [pt 3 2, pt 3 4] [pt 2 1, pt 4 1] []\<rparr>"

definition two_state_first :: selfatari_state where
  "two_state_first = two_state\<lparr>needs_more_lib := pt 3 2, needs_more_lib_except := pt 3 1\<rparr>"

text \<open>The friend and the outside liberty, at \<open>pt 3 3\<close>; an empty point has group id 0.\<close>

definition out_state :: selfatari_state where
  "out_state = state0\<lparr>groupids := buckets [0] [pt 3 2] [pt 2 2] []\<rparr>"

text \<open>The group with one eye, at \<open>pt 3 2\<close>.\<close>

definition eye_state :: selfatari_state where
  "eye_state = state0\<lparr>groupids := buckets [] [pt 2 1] [pt 3 1, pt 3 3] []\<rparr>"

text \<open>
  The nakade, at \<open>pt 3 2\<close>: as collected in the order up, left, right, down, and after
  the friendly scan; then the same for the order down, right, left, up.
\<close>

definition nk_state :: selfatari_state where
  "nk_state = state0\<lparr>groupids := buckets [0] [pt 3 1] [pt 2 1, pt 5 1] []\<rparr>"

definition nk_state_scanned :: selfatari_state where
  "nk_state_scanned = nk_state\<lparr>needs_more_lib := pt 3 1, needs_more_lib_except := pt 4 2\<rparr>"

definition nk_state_rev :: selfatari_state where
  "nk_state_rev = state0\<lparr>groupids := buckets [0] [pt 3 1] [pt 5 1, pt 2 1] []\<rparr>"

definition nk_state_rev_scanned :: selfatari_state where
  "nk_state_rev_scanned =
     nk_state_rev\<lparr>needs_more_lib := pt 3 1, needs_more_lib_except := pt 4 2\<rparr>"

text \<open>The throw-in, at \<open>pt 3 5\<close>: as collected, and after the friendly scan.\<close>

definition th_state :: selfatari_state where
  "th_state = state0\<lparr>groupids := buckets [] [pt 4 5] [pt 3 4, pt 2 5] [0]\<rparr>"

definition th_state_scanned :: selfatari_state where
  "th_state_scanned = th_state\<lparr>needs_more_lib := pt 4 5, needs_more_lib_except := pt 5 5\<rparr>"

text \<open>The throw-in with no friend, at \<open>pt 3 1\<close>; an off-board point has group id 0.\<close>

definition edge_state :: selfatari_state where
  "edge_state = state0\<lparr>groupids := buckets [0] [] [pt 2 1, pt 5 1] [0]\<rparr>"

section \<open>Facts about the collector and the scans\<close>

text \<open>What the collector leaves in a bucket: the group ids of the neighbours of that
  colour, each once.\<close>

lemma collect_neighbor_set:
  "collect_neighbor b c ids = Inr ids' \<Longrightarrow>
     set (ids' col) = set (ids col) \<union> (if board_at b c = col then {group_at b c} else {})"
  by (auto simp: collect_neighbor_def Let_def split: if_splits)

lemma collect_groups_set:
  "collect_groups b cs ids = Inr ids' \<Longrightarrow>
     set (ids' col) = set (ids col) \<union> group_at b ` {c \<in> set cs. board_at b c = col}"
proof (induction cs arbitrary: ids)
  case Nil
  then show ?case by simp
next
  case (Cons c cs)
  from Cons.prems obtain ids1 where
    step: "collect_neighbor b c ids = Inr ids1" and rest: "collect_groups b cs ids1 = Inr ids'"
    by (auto split: sum.splits)
  have "set (ids' col) = set (ids1 col) \<union> group_at b ` {c \<in> set cs. board_at b c = col}"
    using Cons.IH [OF rest] .
  also have "set (ids1 col) = set (ids col) \<union> (if board_at b c = col then {group_at b c} else {})"
    using collect_neighbor_set [OF step] .
  finally show ?case by auto
qed

lemma collect_state_groupids:
  assumes "collect_state b to = Inr s0"
  shows "set (groupids s0 col) = group_at b ` {c \<in> set (foreach_neighbor b to). board_at b c = col}"
    and "friend_has_no_libs s0 = False" and "needs_more_lib s0 = 0"
proof -
  from assms obtain ids where
    ids: "collect_groups b (foreach_neighbor b to) (\<lambda>_. []) = Inr ids"
    and s0: "s0 = state0\<lparr>groupids := ids\<rparr>"
    by (auto simp: collect_state_def split: sum.splits)
  show "set (groupids s0 col) = group_at b ` {c \<in> set (foreach_neighbor b to). board_at b c = col}"
    using collect_groups_set [OF ids, of col] s0 by simp
  show "friend_has_no_libs s0 = False" "needs_more_lib s0 = 0"
    using s0 by (simp_all add: state0_def)
qed

lemma collect_neighbor_distinct:
  "collect_neighbor b c ids = Inr ids' \<Longrightarrow> distinct (ids col) \<Longrightarrow> distinct (ids' col)"
  by (auto simp: collect_neighbor_def Let_def split: if_splits)

lemma collect_groups_distinct:
  "collect_groups b cs ids = Inr ids' \<Longrightarrow> distinct (ids col) \<Longrightarrow> distinct (ids' col)"
proof (induction cs arbitrary: ids)
  case Nil
  then show ?case by simp
next
  case (Cons c cs)
  from Cons.prems(1) obtain ids1 where
    step: "collect_neighbor b c ids = Inr ids1" and rest: "collect_groups b cs ids1 = Inr ids'"
    by (auto split: sum.splits)
  have "distinct (ids1 col)"
    using collect_neighbor_distinct [OF step Cons.prems(2)] .
  then show ?case using Cons.IH [OF rest] by simp
qed

lemma collect_state_distinct:
  assumes "collect_state b to = Inr s0"
  shows "distinct (groupids s0 col)"
proof -
  from assms obtain ids where
    ids: "collect_groups b (foreach_neighbor b to) (\<lambda>_. []) = Inr ids"
    and s0: "s0 = state0\<lparr>groupids := ids\<rparr>"
    by (auto simp: collect_state_def split: sum.splits)
  have "distinct (ids col)" using collect_groups_distinct [OF ids, of col] by simp
  then show ?thesis using s0 by simp
qed

lemma neighbors_of_colour:
  "{c \<in> set (foreach_neighbor b to). board_at b c = S_NONE} = set (empty_neighbors b to)"
  by (auto simp: empty_neighbors_def)

lemma no_empty_neighbor_bucket:
  assumes "collect_state b to = Inr s0" and "empty_neighbors b to = []"
  shows "groupids s0 S_NONE = []"
proof -
  have "set (groupids s0 S_NONE) = {}"
    using collect_state_groupids(1) [OF assms(1), of S_NONE] assms(2)
    by (simp add: neighbors_of_colour)
  then show ?thesis by simp
qed

lemma one_empty_neighbor_bucket:
  assumes "collect_state b to = Inr s0" and "length (empty_neighbors b to) = 1"
  shows "groupcts s0 S_NONE = 1"
proof -
  from assms(2) obtain e where e: "empty_neighbors b to = [e]"
    by (cases "empty_neighbors b to") auto
  have "set (groupids s0 S_NONE) = {group_at b e}"
    using collect_state_groupids(1) [OF assms(1), of S_NONE] e
    by (simp add: neighbors_of_colour)
  moreover have "distinct (groupids s0 S_NONE)"
    using collect_state_distinct [OF assms(1)] .
  ultimately have "length (groupids s0 S_NONE) = card {group_at b e}"
    using distinct_card by metis
  then show ?thesis by (simp add: groupcts_def)
qed

text \<open>The friendly scan never writes to the buckets.\<close>

lemma friendly_loop_groupids:
  "friendly_loop b color to gs s = Inr (r, s') \<Longrightarrow> groupids s' = groupids s"
proof (induction gs arbitrary: s)
  case Nil
  then show ?case by simp
next
  case (Cons g gs)
  show ?case
  proof (cases "libs b g = 1")
    case True
    with Cons.prems have
      "friendly_loop b color to gs
         (if needs_more_lib s = 0 then s\<lparr>friend_has_no_libs := True\<rparr> else s) = Inr (r, s')"
      by simp
    from Cons.IH [OF this] show ?thesis by (simp split: if_splits)
  next
    case False
    show ?thesis
    proof (cases "libs b g > 2")
      case True
      with False Cons.prems show ?thesis by (auto split: if_splits sum.splits)
    next
      case notbig: False
      let ?next = "s\<lparr>needs_more_lib := g,
                     needs_more_lib_except := board_group_other_lib b g to,
                     friend_has_no_libs := False\<rparr>"
      from False notbig Cons.prems have
        "s' = s \<or> friendly_loop b color to gs ?next = Inr (r, s')"
        by (auto simp: Let_def split: if_splits)
      then show ?thesis
      proof
        assume "s' = s" then show ?thesis by simp
      next
        assume "friendly_loop b color to gs ?next = Inr (r, s')"
        from Cons.IH [OF this] show ?thesis by simp
      qed
    qed
  qed
qed

lemma examine_friendly_groupids:
  "examine_friendly_groups b color to s = Inr (r, s') \<Longrightarrow> groupids s' = groupids s"
  unfolding examine_friendly_groups_def by (rule friendly_loop_groupids)

text \<open>A scan over a list that is cut in two.\<close>

lemma enemy_loop_append:
  "enemy_loop b color s (pre @ gs) cc =
     (case enemy_loop b color s pre cc of
        Verdict v \<Rightarrow> Verdict v
      | Scanned cc' \<Rightarrow> enemy_loop b color s gs cc')"
  by (induction pre arbitrary: cc) simp_all

lemma friendly_loop_append:
  "friendly_loop b color to pre s = Inr (None, s1) \<Longrightarrow>
     friendly_loop b color to (pre @ gs) s = friendly_loop b color to gs s1"
proof (induction pre arbitrary: s)
  case Nil
  then show ?case by simp
next
  case (Cons g pre)
  show ?case
  proof (cases "libs b g = 1")
    case True
    with Cons.prems Cons.IH show ?thesis by simp
  next
    case False
    show ?thesis
    proof (cases "libs b g > 2")
      case True
      with False Cons.prems show ?thesis by (auto split: if_splits sum.splits)
    next
      case notbig: False
      let ?next = "s\<lparr>needs_more_lib := g,
                     needs_more_lib_except := board_group_other_lib b g to,
                     friend_has_no_libs := False\<rparr>"
      from False notbig Cons.prems have
        go: "friendly_loop b color to (g # pre) s = friendly_loop b color to pre ?next"
        and "friendly_loop b color to pre ?next = Inr (None, s1)"
        by (auto simp: Let_def split: if_splits)
      from Cons.IH [OF this(2)] have
        "friendly_loop b color to (pre @ gs) ?next = friendly_loop b color to gs s1" .
      moreover have "friendly_loop b color to ((g # pre) @ gs) s
                       = friendly_loop b color to (pre @ gs) ?next"
        using False notbig Cons.prems by (auto simp: Let_def split: if_splits)
      ultimately show ?thesis by simp
    qed
  qed
qed

text \<open>The verdict of the orchestrator once the friendly scan has returned one.\<close>

lemma friendly_verdict_final:
  assumes "collect_state b to = Inr s0" and "groupcts s0 S_NONE \<le> 1"
    and "examine_friendly_groups b color to s0 = Inr (Some d, s)"
  shows "is_bad_selfatari_slow b color to = Inr d"
  using assms by (simp add: is_bad_selfatari_slow_def run_analyzers_def)

lemma enemy_verdict_final:
  assumes "collect_state b to = Inr s0" and "groupcts s0 S_NONE \<le> 1"
    and "examine_friendly_groups b color to s0 = Inr (None, s)"
    and "examine_enemy_groups b color to s = Some d"
  shows "is_bad_selfatari_slow b color to = Inr d"
  using assms by (simp add: is_bad_selfatari_slow_def run_analyzers_def)

text \<open>Naming the value and the state a successful call returned.\<close>

lemma inr_eqI: "\<not> isl r \<Longrightarrow> projr r = v \<Longrightarrow> r = Inr v"
  by (cases r) simp_all

lemma state_eqI:
  assumes "groupids s S_NONE = groupids t S_NONE" "groupids s S_BLACK = groupids t S_BLACK"
    "groupids s S_WHITE = groupids t S_WHITE" "groupids s S_OFFBOARD = groupids t S_OFFBOARD"
    "friend_has_no_libs s = friend_has_no_libs t" "needs_more_lib s = needs_more_lib t"
    "needs_more_lib_except s = needs_more_lib_except t"
  shows "s = (t :: selfatari_state)"
proof -
  have "groupids s c = groupids t c" for c
    using assms(1-4) by (cases c) simp_all
  then have "groupids s = groupids t" by (rule ext)
  with assms(5-7) show ?thesis by (cases s, cases t) simp
qed

lemma collect_eqI:
  assumes "\<not> isl (collect_state b to)"
    and "groupids (projr (collect_state b to)) S_NONE = groupids t S_NONE"
    and "groupids (projr (collect_state b to)) S_BLACK = groupids t S_BLACK"
    and "groupids (projr (collect_state b to)) S_WHITE = groupids t S_WHITE"
    and "groupids (projr (collect_state b to)) S_OFFBOARD = groupids t S_OFFBOARD"
    and "friend_has_no_libs (projr (collect_state b to)) = friend_has_no_libs t"
    and "needs_more_lib (projr (collect_state b to)) = needs_more_lib t"
    and "needs_more_lib_except (projr (collect_state b to)) = needs_more_lib_except t"
  shows "collect_state b to = Inr t"
  using assms(1) state_eqI [OF assms(2-8)] by (rule inr_eqI)

lemma friendly_eqI:
  assumes "\<not> isl r" and "fst (projr r) = v"
    and "groupids (snd (projr r)) S_NONE = groupids t S_NONE"
    and "groupids (snd (projr r)) S_BLACK = groupids t S_BLACK"
    and "groupids (snd (projr r)) S_WHITE = groupids t S_WHITE"
    and "groupids (snd (projr r)) S_OFFBOARD = groupids t S_OFFBOARD"
    and "friend_has_no_libs (snd (projr r)) = friend_has_no_libs t"
    and "needs_more_lib (snd (projr r)) = needs_more_lib t"
    and "needs_more_lib_except (snd (projr r)) = needs_more_lib_except t"
  shows "r = Inr (v, t :: selfatari_state)"
proof (rule inr_eqI [OF assms(1)])
  have "snd (projr r) = t" by (rule state_eqI [OF assms(3-9)])
  with assms(2) show "projr r = (v, t)" by (simp add: prod_eq_iff)
qed

section \<open>The scans on the positions\<close>

text \<open>The group tables of the positions fit their rows.\<close>

lemma ko_fits: "table_fits ko_rows ko_groups"
  by code_simp

lemma su_fits: "table_fits su_rows su_groups"
  by code_simp

lemma two_fits: "table_fits two_rows two_groups"
  by code_simp

lemma out_fits: "table_fits out_rows out_groups"
  by code_simp

lemma eye_fits:
  "table_fits eye_rows (eye_groups [pt 1 1, pt 3 2, pt 2 3])"
  "table_fits eye_rows (eye_groups [pt 2 3, pt 3 2, pt 1 1])"
  by code_simp+

lemma nk_fits: "table_fits nk_rows nk_groups"
  by code_simp

lemma th_fits: "table_fits th_rows th_groups"
  by code_simp

lemma edge_fits: "table_fits edge_rows edge_groups"
  by code_simp

lemma ext_fits: "table_fits ext_rows ext_groups"
  by code_simp

text \<open>What the collector and the friendly scan return on each position.\<close>

lemma ko_collect: "collect_state ko_board (pt 3 3) = Inr ko_state"
  by (rule collect_eqI; code_simp)

lemma ko_friendly: "examine_friendly_groups ko_board S_BLACK (pt 3 3) ko_state = Inr (None, ko_state)"
  by (rule friendly_eqI; code_simp)

lemma su_collect: "collect_state su_board (pt 3 2) = Inr su_state"
  by (rule collect_eqI; code_simp)

lemma su_friendly: "examine_friendly_groups su_board S_BLACK (pt 3 2) su_state = Inr (None, su_state)"
  by (rule friendly_eqI; code_simp)

lemma two_collect: "collect_state two_board (pt 3 3) = Inr two_state"
  by (rule collect_eqI; code_simp)

lemma two_first:
  "friendly_loop two_board S_BLACK (pt 3 3) [pt 3 2] two_state = Inr (None, two_state_first)"
  by (rule friendly_eqI; code_simp)

lemma out_collect: "collect_state out_board (pt 3 3) = Inr out_state"
  by (rule collect_eqI; code_simp)

lemma out_first: "friendly_loop out_board S_BLACK (pt 3 3) [] out_state = Inr (None, out_state)"
  by simp

lemma eye_first_collect: "collect_state eye_first_board (pt 3 2) = Inr eye_state"
  by (rule collect_eqI; code_simp)

lemma eye_last_collect: "collect_state eye_last_board (pt 3 2) = Inr eye_state"
  by (rule collect_eqI; code_simp)

lemma nk_collect: "collect_state nk_board (pt 3 2) = Inr nk_state"
  by (rule collect_eqI; code_simp)

lemma nk_friendly:
  "examine_friendly_groups nk_board S_BLACK (pt 3 2) nk_state = Inr (None, nk_state_scanned)"
  by (rule friendly_eqI; code_simp)


lemma nk_rev_friendly:
  "examine_friendly_groups nk_board_rev S_BLACK (pt 3 2) nk_state_rev
     = Inr (None, nk_state_rev_scanned)"
  by (rule friendly_eqI; code_simp)

lemma th_collect: "collect_state th_board (pt 3 5) = Inr th_state"
  by (rule collect_eqI; code_simp)

lemma th_friendly:
  "examine_friendly_groups th_board S_BLACK (pt 3 5) th_state = Inr (None, th_state_scanned)"
  by (rule friendly_eqI; code_simp)

lemma edge_collect: "collect_state edge_board (pt 3 1) = Inr edge_state"
  by (rule collect_eqI; code_simp)

lemma edge_friendly:
  "examine_friendly_groups edge_board S_BLACK (pt 3 1) edge_state = Inr (None, edge_state)"
  by (rule friendly_eqI; code_simp)

section \<open>Simple suicide\<close>

text \<open>
  Claim C2. When the friendly scan ends without a verdict, the enemy scan runs to its
  end with no capture candidate (\<^verbatim>\<open>can_capture\<close> still 0), \<^verbatim>\<open>needs_more_lib\<close> is
  unset and no neighbour of the candidate point is empty, then
  \<^verbatim>\<open>is_bad_selfatari_slow\<close> returns true: the move is a suicide.
\<close>

theorem suicide_is_bad:
  assumes collected: "collect_state b to = Inr s0"
    and friendly: "examine_friendly_groups b color to s0 = Inr (None, s)"
    and scanned: "enemy_loop b color s (groupids s (stone_other color)) 0 = Scanned 0"
    and no_credit: "needs_more_lib s = 0"
    and no_empty: "empty_neighbors b to = []"
  shows "is_bad_selfatari_slow b color to = Inr True"
proof -
  have empty0: "groupids s0 S_NONE = []"
    using no_empty_neighbor_bucket [OF collected no_empty] .
  then have empty: "groupids s S_NONE = []"
    using examine_friendly_groupids [OF friendly] by simp
  have "examine_enemy_groups b color to s = Some True"
    using scanned no_credit empty by (simp add: examine_enemy_groups_def groupcts_def)
  then have "run_analyzers b color to s0 = Inr True"
    using friendly empty0 by (simp add: run_analyzers_def groupcts_def)
  then show ?thesis
    using collected by (simp add: is_bad_selfatari_slow_def)
qed

text \<open>The suicide position: Black at \<open>pt 3 2\<close> between four white stones.\<close>

theorem suicide_is_bad_witness:
  "enemy_loop su_board S_BLACK su_state (groupids su_state (stone_other S_BLACK)) 0 = Scanned 0
   \<and> needs_more_lib su_state = 0
   \<and> empty_neighbors su_board (pt 3 2) = []
   \<and> is_bad_selfatari_slow su_board S_BLACK (pt 3 2) = Inr True"
proof -
  have h3: "enemy_loop su_board S_BLACK su_state (groupids su_state (stone_other S_BLACK)) 0
              = Scanned 0"
    by code_simp
  have h4: "needs_more_lib su_state = 0" by code_simp
  have h5: "empty_neighbors su_board (pt 3 2) = []" by code_simp
  show ?thesis using suicide_is_bad [OF su_collect su_friendly h3 h4 h5] h3 h4 h5 by simp
qed

section \<open>Capturing a ko stone\<close>

text \<open>
  Claim C1, as stated, at the ko: the enemy scan reaches the white stone at \<open>pt 2 3\<close>,
  a single stone in atari with three black neighbours; no neighbour of the candidate point
  is empty, no friend is out of liberties, there is no friendly group and no
  \<^verbatim>\<open>needs_more_lib\<close>, and neither the nakade scan nor the throw-in check finds a
  pattern. The claim has the verdict true; the code returns false.
\<close>

theorem ko_capture_counterexample:
  "collect_state ko_board (pt 3 3) = Inr ko_state
   \<and> examine_friendly_groups ko_board S_BLACK (pt 3 3) ko_state = Inr (None, ko_state)
   \<and> groupids ko_state (stone_other S_BLACK) = [pt 3 2] @ pt 2 3 # [pt 4 3, pt 3 4]
   \<and> enemy_loop ko_board S_BLACK ko_state [pt 3 2] 0 = Scanned 0
   \<and> libs ko_board (pt 2 3) = 1
   \<and> group_is_onestone ko_board (pt 2 3)
   \<and> neighbor_count_at ko_board (pt 2 3) S_BLACK
        + neighbor_count_at ko_board (pt 2 3) S_OFFBOARD = 3
   \<and> groupcts ko_state S_NONE = 0
   \<and> \<not> friend_has_no_libs ko_state
   \<and> needs_more_lib ko_state = 0
   \<and> groupcts ko_state S_BLACK = 0
   \<and> setup_nakade_or_snapback ko_board S_BLACK (pt 3 3) ko_state = Inr None
   \<and> check_throwin ko_board S_BLACK (pt 3 3) ko_state = Inr None
   \<and> is_bad_selfatari_slow ko_board S_BLACK (pt 3 3) = Inr False"
proof -
  have "groupids ko_state (stone_other S_BLACK) = [pt 3 2] @ pt 2 3 # [pt 4 3, pt 3 4]"
    by code_simp
  moreover have "enemy_loop ko_board S_BLACK ko_state [pt 3 2] 0 = Scanned 0" by code_simp
  moreover have "libs ko_board (pt 2 3) = 1" by code_simp
  moreover have "group_is_onestone ko_board (pt 2 3)" by code_simp
  moreover have "neighbor_count_at ko_board (pt 2 3) S_BLACK
        + neighbor_count_at ko_board (pt 2 3) S_OFFBOARD = 3" by code_simp
  moreover have "groupcts ko_state S_NONE = 0" by code_simp
  moreover have "\<not> friend_has_no_libs ko_state" by code_simp
  moreover have "needs_more_lib ko_state = 0" by code_simp
  moreover have "groupcts ko_state S_BLACK = 0" by code_simp
  moreover have "setup_nakade_or_snapback ko_board S_BLACK (pt 3 3) ko_state = Inr None"
    by code_simp
  moreover have "check_throwin ko_board S_BLACK (pt 3 3) ko_state = Inr None" by code_simp
  moreover have "is_bad_selfatari_slow ko_board S_BLACK (pt 3 3) = Inr False" by code_simp
  ultimately show ?thesis using ko_collect ko_friendly by blast
qed

text \<open>
  Claim C1, amended. When the friendly scan ends without a verdict and the enemy scan
  reaches an enemy group in atari that is a single stone in ko shape, no neighbour of the
  candidate point being empty and no friend being out of liberties, then
  \<^verbatim>\<open>is_bad_selfatari_slow\<close> returns false: the capture counts as an escape.
\<close>

theorem ko_capture_is_escape:
  assumes collected: "collect_state b to = Inr s0"
    and friendly: "examine_friendly_groups b color to s0 = Inr (None, s)"
    and groups: "groupids s (stone_other color) = pre @ g # rest"
    and reached: "enemy_loop b color s pre 0 = Scanned can_capture"
    and atari: "libs b g = 1"
    and single: "group_is_onestone b g"
    and ko: "neighbor_count_at b g color + neighbor_count_at b g S_OFFBOARD = 3"
    and no_outside: "groupcts s S_NONE = 0"
    and no_dead_friend: "\<not> friend_has_no_libs s"
  shows "is_bad_selfatari_slow b color to = Inr False"
proof -
  have "enemy_loop b color s (g # rest) can_capture = Verdict False"
    using atari single ko no_outside no_dead_friend by simp
  then have "enemy_loop b color s (pre @ g # rest) 0 = Verdict False"
    using reached by (simp add: enemy_loop_append)
  then have enemy: "examine_enemy_groups b color to s = Some False"
    using groups by (simp add: examine_enemy_groups_def)
  have "groupids s0 = groupids s"
    using examine_friendly_groupids [OF friendly] by simp
  then have small: "groupcts s0 S_NONE \<le> 1"
    using no_outside by (simp add: groupcts_def)
  show ?thesis
    using collected small friendly enemy by (rule enemy_verdict_final)
qed

theorem ko_capture_is_escape_witness:
  "libs ko_board (pt 2 3) = 1 \<and> group_is_onestone ko_board (pt 2 3)
   \<and> \<not> friend_has_no_libs ko_state
   \<and> is_bad_selfatari_slow ko_board S_BLACK (pt 3 3) = Inr False"
proof -
  have h3: "groupids ko_state (stone_other S_BLACK) = [pt 3 2] @ pt 2 3 # [pt 4 3, pt 3 4]"
    by code_simp
  have h4: "enemy_loop ko_board S_BLACK ko_state [pt 3 2] 0 = Scanned 0" by code_simp
  have h5: "libs ko_board (pt 2 3) = 1" by code_simp
  have h6: "group_is_onestone ko_board (pt 2 3)" by code_simp
  have h7: "neighbor_count_at ko_board (pt 2 3) S_BLACK
        + neighbor_count_at ko_board (pt 2 3) S_OFFBOARD = 3" by code_simp
  have h8: "groupcts ko_state S_NONE = 0" by code_simp
  have h9: "\<not> friend_has_no_libs ko_state" by code_simp
  show ?thesis
    using ko_capture_is_escape [OF ko_collect ko_friendly h3 h4 h5 h6 h7 h8 h9] h5 h6 h9
    by simp
qed

section \<open>Two friends that need different liberties\<close>

text \<open>
  Claim C3, as stated, at the two friends: the friendly scan looks at the black stone
  \<open>pt 3 4\<close>, a group of two liberties, while \<^verbatim>\<open>needs_more_lib\<close> records the other
  black stone \<open>pt 3 2\<close>, whose recorded other liberty \<open>pt 3 1\<close> differs from
  \<open>pt 3 5\<close>. The claim has the verdict true; the code returns false.
\<close>

theorem two_requirements_counterexample:
  "collect_state two_board (pt 3 3) = Inr two_state
   \<and> groupids two_state S_BLACK = [pt 3 2] @ pt 3 4 # []
   \<and> friendly_loop two_board S_BLACK (pt 3 3) [pt 3 2] two_state = Inr (None, two_state_first)
   \<and> libs two_board (pt 3 4) = 2
   \<and> needs_more_lib two_state_first = pt 3 2
   \<and> needs_more_lib_except two_state_first = pt 3 1
   \<and> board_group_other_lib two_board (pt 3 4) (pt 3 3) = pt 3 5
   \<and> pt 3 2 \<noteq> 0 \<and> pt 3 2 \<noteq> pt 3 4 \<and> pt 3 1 \<noteq> pt 3 5
   \<and> is_bad_selfatari_slow two_board S_BLACK (pt 3 3) = Inr False"
proof -
  have "groupids two_state S_BLACK = [pt 3 2] @ pt 3 4 # []" by code_simp
  moreover have "libs two_board (pt 3 4) = 2" by code_simp
  moreover have "needs_more_lib two_state_first = pt 3 2" by code_simp
  moreover have "needs_more_lib_except two_state_first = pt 3 1" by code_simp
  moreover have "board_group_other_lib two_board (pt 3 4) (pt 3 3) = pt 3 5" by code_simp
  moreover have "pt 3 2 \<noteq> 0 \<and> pt 3 2 \<noteq> pt 3 4 \<and> pt 3 1 \<noteq> pt 3 5" by code_simp
  moreover have "is_bad_selfatari_slow two_board S_BLACK (pt 3 3) = Inr False" by code_simp
  ultimately show ?thesis using two_collect two_first by blast
qed

text \<open>
  Claim C3, amended. When the friendly scan reaches a friendly group \<open>g\<close> of two
  liberties while \<^verbatim>\<open>needs_more_lib\<close> records a different group whose
  \<^verbatim>\<open>needs_more_lib_except\<close> differs from the other liberty of \<open>g\<close>, then
  \<^verbatim>\<open>is_bad_selfatari_slow\<close> returns false. The second premise is the assertion of
  the orchestrator.
\<close>

theorem two_requirements_not_bad:
  assumes collected: "collect_state b to = Inr s0"
    and one_empty: "groupcts s0 S_NONE \<le> 1"
    and groups: "groupids s0 color = pre @ g # rest"
    and reached: "friendly_loop b color to pre s0 = Inr (None, s)"
    and two_libs: "libs b g = 2"
    and recorded: "needs_more_lib s \<noteq> 0"
    and different: "needs_more_lib s \<noteq> g"
    and other: "needs_more_lib_except s \<noteq> board_group_other_lib b g to"
  shows "is_bad_selfatari_slow b color to = Inr False"
proof -
  have "friendly_loop b color to (g # rest) s = Inr (Some False, s)"
    using two_libs recorded different other by simp
  then have "friendly_loop b color to (pre @ g # rest) s0 = Inr (Some False, s)"
    using friendly_loop_append [OF reached] by simp
  then have "examine_friendly_groups b color to s0 = Inr (Some False, s)"
    using groups by (simp add: examine_friendly_groups_def)
  with collected one_empty show ?thesis by (rule friendly_verdict_final)
qed

theorem two_requirements_not_bad_witness:
  "libs two_board (pt 3 4) = 2 \<and> needs_more_lib two_state_first \<noteq> 0
   \<and> needs_more_lib two_state_first \<noteq> pt 3 4
   \<and> needs_more_lib_except two_state_first
        \<noteq> board_group_other_lib two_board (pt 3 4) (pt 3 3)
   \<and> is_bad_selfatari_slow two_board S_BLACK (pt 3 3) = Inr False"
proof -
  have h2: "groupcts two_state S_NONE \<le> 1" by code_simp
  have h3: "groupids two_state S_BLACK = [pt 3 2] @ pt 3 4 # []" by code_simp
  have h5: "libs two_board (pt 3 4) = 2" by code_simp
  have h6: "needs_more_lib two_state_first \<noteq> 0" by code_simp
  have h7: "needs_more_lib two_state_first \<noteq> pt 3 4" by code_simp
  have h8: "needs_more_lib_except two_state_first
              \<noteq> board_group_other_lib two_board (pt 3 4) (pt 3 3)" by code_simp
  show ?thesis
    using two_requirements_not_bad [OF two_collect h2 h3 two_first h5 h6 h7 h8] h5 h6 h7 h8
    by simp
qed

section \<open>A friend of two liberties and one empty neighbour\<close>

text \<open>
  Claim C4, as stated, at the friend with an outside liberty: the friendly scan looks at
  the black stone \<open>pt 3 2\<close>, a group of two liberties, no requirement is recorded, the
  one empty neighbour of the candidate point is \<open>pt 4 3\<close>, and it is not adjacent to the
  group's other liberty \<open>pt 3 1\<close> (nor is \<open>pt 3 1\<close> adjacent to the candidate point).
  The claim has the verdict true; the code returns false.
\<close>

theorem outside_liberty_counterexample:
  "collect_state out_board (pt 3 3) = Inr out_state
   \<and> groupids out_state S_BLACK = [] @ pt 3 2 # []
   \<and> friendly_loop out_board S_BLACK (pt 3 3) [] out_state = Inr (None, out_state)
   \<and> libs out_board (pt 3 2) = 2
   \<and> needs_more_lib out_state = 0
   \<and> empty_neighbors out_board (pt 3 3) = [pt 4 3]
   \<and> board_group_other_lib out_board (pt 3 2) (pt 3 3) = pt 3 1
   \<and> \<not> coord_is_adjecent out_board (pt 4 3) (pt 3 1)
   \<and> \<not> coord_is_adjecent out_board (pt 3 1) (pt 3 3)
   \<and> is_bad_selfatari_slow out_board S_BLACK (pt 3 3) = Inr False"
proof -
  have "groupids out_state S_BLACK = [] @ pt 3 2 # []" by code_simp
  moreover have "libs out_board (pt 3 2) = 2" by code_simp
  moreover have "needs_more_lib out_state = 0" by code_simp
  moreover have "empty_neighbors out_board (pt 3 3) = [pt 4 3]" by code_simp
  moreover have "board_group_other_lib out_board (pt 3 2) (pt 3 3) = pt 3 1" by code_simp
  moreover have "\<not> coord_is_adjecent out_board (pt 4 3) (pt 3 1)" by code_simp
  moreover have "\<not> coord_is_adjecent out_board (pt 3 1) (pt 3 3)" by code_simp
  moreover have "is_bad_selfatari_slow out_board S_BLACK (pt 3 3) = Inr False" by code_simp
  ultimately show ?thesis using out_collect out_first by blast
qed

text \<open>
  Claim C4, amended. When the friendly scan reaches a friendly group of two liberties,
  no conflicting requirement is recorded, the candidate point has exactly one empty
  neighbour and the group's other liberty is not adjacent to the candidate point, then
  \<^verbatim>\<open>is_bad_selfatari_slow\<close> returns false.
\<close>

theorem outside_liberty_not_bad:
  assumes collected: "collect_state b to = Inr s0"
    and groups: "groupids s0 color = pre @ g # rest"
    and reached: "friendly_loop b color to pre s0 = Inr (None, s)"
    and two_libs: "libs b g = 2"
    and no_conflict: "needs_more_lib s = 0 \<or> needs_more_lib s = g
        \<or> needs_more_lib_except s = board_group_other_lib b g to"
    and one_empty: "length (empty_neighbors b to) = 1"
    and apart: "\<not> coord_is_adjecent b (board_group_other_lib b g to) to"
  shows "is_bad_selfatari_slow b color to = Inr False"
proof -
  have count0: "groupcts s0 S_NONE = 1"
    using one_empty_neighbor_bucket [OF collected one_empty] .
  have "groupids s = groupids s0"
    using friendly_loop_groupids [OF reached] .
  then have count: "groupcts s S_NONE = 1"
    using count0 by (simp add: groupcts_def)
  have "friendly_loop b color to (g # rest) s = Inr (Some False, s)"
    using two_libs count apart by (simp add: Let_def)
  then have "friendly_loop b color to (pre @ g # rest) s0 = Inr (Some False, s)"
    using friendly_loop_append [OF reached] by simp
  then have verdict: "examine_friendly_groups b color to s0 = Inr (Some False, s)"
    using groups by (simp add: examine_friendly_groups_def)
  have small: "groupcts s0 S_NONE \<le> 1" using count0 by simp
  show ?thesis using collected small verdict by (rule friendly_verdict_final)
qed

theorem outside_liberty_not_bad_witness:
  "libs out_board (pt 3 2) = 2
   \<and> length (empty_neighbors out_board (pt 3 3)) = 1
   \<and> \<not> coord_is_adjecent out_board (board_group_other_lib out_board (pt 3 2) (pt 3 3)) (pt 3 3)
   \<and> is_bad_selfatari_slow out_board S_BLACK (pt 3 3) = Inr False"
proof -
  have h2: "groupids out_state S_BLACK = [] @ pt 3 2 # []" by code_simp
  have h4: "libs out_board (pt 3 2) = 2" by code_simp
  have h5: "needs_more_lib out_state = 0 \<or> needs_more_lib out_state = pt 3 2
        \<or> needs_more_lib_except out_state = board_group_other_lib out_board (pt 3 2) (pt 3 3)"
    by code_simp
  have h6: "length (empty_neighbors out_board (pt 3 3)) = 1" by code_simp
  have h7: "\<not> coord_is_adjecent out_board
              (board_group_other_lib out_board (pt 3 2) (pt 3 3)) (pt 3 3)" by code_simp
  show ?thesis
    using outside_liberty_not_bad [OF out_collect h2 out_first h4 h5 h6 h7] h4 h6 h7
    by simp
qed

section \<open>Filling a liberty next to an eye\<close>

text \<open>
  Claim C5 holds when the eye is the second of the two other liberties: the first round
  of the last loop returns false at once.
\<close>

lemma eye_in_second_slot:
  assumes "other_libs b g to = [l0, l1]"
    and "board_is_one_point_eye b l1 color"
    and "\<not> (coord_is_adjecent b l0 to \<and> coord_is_adjecent b l1 to)"
  shows "three_liberty_suicide b g color to s = Inr False"
  using assms by (auto simp: three_liberty_suicide_def lib_round_def Let_def)

text \<open>
  Claim C5 fails when the eye is the first of the two. On the group with one eye the
  liberty array is \<open>pt 1 1\<close> (the eye), \<open>pt 3 2\<close> (the move), \<open>pt 2 3\<close>: the first round
  finds that \<open>pt 2 3\<close> is no eye and that playing in the eye \<open>pt 1 1\<close> neither gains a
  liberty nor connects, and returns true before the second round looks at the eye. With
  the array in the order \<open>pt 2 3\<close>, \<open>pt 3 2\<close>, \<open>pt 1 1\<close> the same position is not bad.
\<close>

theorem eye_fill_depends_on_liberty_order:
  "collect_state eye_first_board (pt 3 2) = Inr eye_state
   \<and> groupids eye_state S_BLACK = [pt 2 1]
   \<and> libs eye_first_board (pt 2 1) = 3
   \<and> other_libs eye_first_board (pt 2 1) (pt 3 2) = [pt 1 1, pt 2 3]
   \<and> board_is_one_point_eye eye_first_board (pt 1 1) S_BLACK
   \<and> three_liberty_suicide eye_first_board (pt 2 1) S_BLACK (pt 3 2) eye_state = Inr True
   \<and> is_bad_selfatari_slow eye_first_board S_BLACK (pt 3 2) = Inr True
   \<and> other_libs eye_last_board (pt 2 1) (pt 3 2) = [pt 2 3, pt 1 1]
   \<and> board_is_one_point_eye eye_last_board (pt 1 1) S_BLACK
   \<and> is_bad_selfatari_slow eye_last_board S_BLACK (pt 3 2) = Inr False"
proof -
  have "groupids eye_state S_BLACK = [pt 2 1]" by code_simp
  moreover have "libs eye_first_board (pt 2 1) = 3" by code_simp
  moreover have "other_libs eye_first_board (pt 2 1) (pt 3 2) = [pt 1 1, pt 2 3]" by code_simp
  moreover have "board_is_one_point_eye eye_first_board (pt 1 1) S_BLACK" by code_simp
  moreover have
    "three_liberty_suicide eye_first_board (pt 2 1) S_BLACK (pt 3 2) eye_state = Inr True"
    by code_simp
  moreover have "is_bad_selfatari_slow eye_first_board S_BLACK (pt 3 2) = Inr True"
    by code_simp
  moreover have "other_libs eye_last_board (pt 2 1) (pt 3 2) = [pt 2 3, pt 1 1]" by code_simp
  moreover have "board_is_one_point_eye eye_last_board (pt 1 1) S_BLACK" by code_simp
  moreover have "is_bad_selfatari_slow eye_last_board S_BLACK (pt 3 2) = Inr False"
    by code_simp
  ultimately show ?thesis using eye_first_collect by blast
qed

section \<open>A rejected group in the nakade scan\<close>

text \<open>The two ways the claim names in which the body rejects a group of two liberties.\<close>

lemma rejected_next_group:
  assumes "libs b g = 2"
    and "\<not> list_all (lib2_neighbor_ok b color to g)
             (foreach_neighbor b (board_group_other_lib b g to))
         \<or> (groupcts s color = 1 \<and> group_is_onestone b (groupids s color ! 0)
             \<and> libs b (groupids s color ! 0) \<le> 2 \<and> libs b (groupids s color ! 0) \<noteq> 1)"
  shows "nakade_group b color to s g = Inr Next_Group"
  using assms by (auto simp: nakade_group_def Let_def)

lemma nakade_loop_skipped:
  assumes "list_all (\<lambda>g'. nakade_group b color to s g' = Inr Next_Group) pre"
  shows "nakade_loop b color to s (pre @ gs) =
           (if pre \<noteq> [] \<and> groupcts s color \<noteq> 0 then Inr None
            else nakade_loop b color to s gs)"
  using assms by (induction pre) auto

text \<open>
  Claim C6, as stated, fails both ways. At the nakade, with a friendly group next to the
  candidate point, the first white group \<open>pt 2 1\<close> has two liberties and is rejected for
  a neighbour of its other liberty; the claim has the scan go on to \<open>pt 5 1\<close>, which
  the body would answer with \<^verbatim>\<open>return false\<close>, but the scan stops and is
  inconclusive. At the throw-in with no friend the first white group is rejected in the
  same way; the claim has the scan stop, but it goes on and returns false for the second
  group.
\<close>

theorem nakade_scan_counterexample:
  "collect_state nk_board (pt 3 2) = Inr nk_state
   \<and> examine_friendly_groups nk_board S_BLACK (pt 3 2) nk_state = Inr (None, nk_state_scanned)
   \<and> groupids nk_state_scanned (stone_other S_BLACK) = [pt 2 1, pt 5 1]
   \<and> groupcts nk_state_scanned S_BLACK = 1
   \<and> libs nk_board (pt 2 1) = 2
   \<and> \<not> list_all (lib2_neighbor_ok nk_board S_BLACK (pt 3 2) (pt 2 1))
         (foreach_neighbor nk_board (board_group_other_lib nk_board (pt 2 1) (pt 3 2)))
   \<and> nakade_group nk_board S_BLACK (pt 3 2) nk_state_scanned (pt 5 1) = Inr Return_False
   \<and> setup_nakade_or_snapback nk_board S_BLACK (pt 3 2) nk_state_scanned = Inr None
   \<and> collect_state edge_board (pt 3 1) = Inr edge_state
   \<and> examine_friendly_groups edge_board S_BLACK (pt 3 1) edge_state = Inr (None, edge_state)
   \<and> groupids edge_state (stone_other S_BLACK) = [pt 2 1, pt 5 1]
   \<and> groupcts edge_state S_BLACK = 0
   \<and> libs edge_board (pt 2 1) = 2
   \<and> \<not> list_all (lib2_neighbor_ok edge_board S_BLACK (pt 3 1) (pt 2 1))
         (foreach_neighbor edge_board (board_group_other_lib edge_board (pt 2 1) (pt 3 1)))
   \<and> setup_nakade_or_snapback edge_board S_BLACK (pt 3 1) edge_state = Inr (Some False)"
proof -
  have "groupids nk_state_scanned (stone_other S_BLACK) = [pt 2 1, pt 5 1]" by code_simp
  moreover have "groupcts nk_state_scanned S_BLACK = 1" by code_simp
  moreover have "libs nk_board (pt 2 1) = 2" by code_simp
  moreover have "\<not> list_all (lib2_neighbor_ok nk_board S_BLACK (pt 3 2) (pt 2 1))
         (foreach_neighbor nk_board (board_group_other_lib nk_board (pt 2 1) (pt 3 2)))"
    by code_simp
  moreover have
    "nakade_group nk_board S_BLACK (pt 3 2) nk_state_scanned (pt 5 1) = Inr Return_False"
    by code_simp
  moreover have
    "setup_nakade_or_snapback nk_board S_BLACK (pt 3 2) nk_state_scanned = Inr None"
    by code_simp
  moreover have "groupids edge_state (stone_other S_BLACK) = [pt 2 1, pt 5 1]" by code_simp
  moreover have "groupcts edge_state S_BLACK = 0" by code_simp
  moreover have "libs edge_board (pt 2 1) = 2" by code_simp
  moreover have "\<not> list_all (lib2_neighbor_ok edge_board S_BLACK (pt 3 1) (pt 2 1))
         (foreach_neighbor edge_board (board_group_other_lib edge_board (pt 2 1) (pt 3 1)))"
    by code_simp
  moreover have
    "setup_nakade_or_snapback edge_board S_BLACK (pt 3 1) edge_state = Inr (Some False)"
    by code_simp
  ultimately show ?thesis
    using nk_collect nk_friendly edge_collect edge_friendly by blast
qed

text \<open>
  Claim C6, amended. When the nakade scan rejects an enemy group of two liberties (for a
  neighbour of its other liberty, or in the case of one friendly single stone that is left
  to the throw-in check), it stops and is inconclusive when there are friendly
  neighbouring groups, and goes on to the next enemy group only when there are none.
  The groups before \<open>g\<close> in the bucket are groups the scan has passed over.
\<close>

theorem rejected_group_stops_scan_with_friends:
  assumes groups: "groupids s (stone_other color) = pre @ g # rest"
    and skipped: "list_all (\<lambda>g'. nakade_group b color to s g' = Inr Next_Group) pre"
    and two_libs: "libs b g = 2"
    and rejected:
      "\<not> list_all (lib2_neighbor_ok b color to g)
             (foreach_neighbor b (board_group_other_lib b g to))
       \<or> (groupcts s color = 1 \<and> group_is_onestone b (groupids s color ! 0)
           \<and> libs b (groupids s color ! 0) \<le> 2 \<and> libs b (groupids s color ! 0) \<noteq> 1)"
  shows "setup_nakade_or_snapback b color to s =
           (if groupcts s color \<noteq> 0 then Inr None else nakade_loop b color to s rest)"
proof -
  have next_group: "nakade_group b color to s g = Inr Next_Group"
    using two_libs rejected by (rule rejected_next_group)
  have "nakade_loop b color to s (pre @ g # rest) =
          (if pre \<noteq> [] \<and> groupcts s color \<noteq> 0 then Inr None
           else nakade_loop b color to s (g # rest))"
    using skipped by (rule nakade_loop_skipped)
  also have "\<dots> = (if groupcts s color \<noteq> 0 then Inr None else nakade_loop b color to s rest)"
    using next_group by simp
  finally show ?thesis
    using groups by (simp add: setup_nakade_or_snapback_def)
qed

theorem rejected_group_stops_scan_with_friends_witness:
  "groupcts nk_state_scanned S_BLACK \<noteq> 0
   \<and> setup_nakade_or_snapback nk_board S_BLACK (pt 3 2) nk_state_scanned = Inr None
   \<and> groupcts edge_state S_BLACK = 0
   \<and> setup_nakade_or_snapback edge_board S_BLACK (pt 3 1) edge_state
        = nakade_loop edge_board S_BLACK (pt 3 1) edge_state [pt 5 1]"
proof -
  have n1: "groupids nk_state_scanned (stone_other S_BLACK) = [] @ pt 2 1 # [pt 5 1]"
    by code_simp
  have n2: "list_all
     (\<lambda>g'. nakade_group nk_board S_BLACK (pt 3 2) nk_state_scanned g' = Inr Next_Group) []"
    by simp
  have n3: "libs nk_board (pt 2 1) = 2" by code_simp
  have n4: "\<not> list_all (lib2_neighbor_ok nk_board S_BLACK (pt 3 2) (pt 2 1))
         (foreach_neighbor nk_board (board_group_other_lib nk_board (pt 2 1) (pt 3 2)))
     \<or> (groupcts nk_state_scanned S_BLACK = 1
         \<and> group_is_onestone nk_board (groupids nk_state_scanned S_BLACK ! 0)
         \<and> libs nk_board (groupids nk_state_scanned S_BLACK ! 0) \<le> 2
         \<and> libs nk_board (groupids nk_state_scanned S_BLACK ! 0) \<noteq> 1)"
    by code_simp
  have n5: "groupcts nk_state_scanned S_BLACK \<noteq> 0" by code_simp
  have e1: "groupids edge_state (stone_other S_BLACK) = [] @ pt 2 1 # [pt 5 1]"
    by code_simp
  have e2: "list_all
     (\<lambda>g'. nakade_group edge_board S_BLACK (pt 3 1) edge_state g' = Inr Next_Group) []"
    by simp
  have e3: "libs edge_board (pt 2 1) = 2" by code_simp
  have e4: "\<not> list_all (lib2_neighbor_ok edge_board S_BLACK (pt 3 1) (pt 2 1))
         (foreach_neighbor edge_board (board_group_other_lib edge_board (pt 2 1) (pt 3 1)))
     \<or> (groupcts edge_state S_BLACK = 1
         \<and> group_is_onestone edge_board (groupids edge_state S_BLACK ! 0)
         \<and> libs edge_board (groupids edge_state S_BLACK ! 0) \<le> 2
         \<and> libs edge_board (groupids edge_state S_BLACK ! 0) \<noteq> 1)"
    by code_simp
  have e5: "groupcts edge_state S_BLACK = 0" by code_simp
  show ?thesis
    using rejected_group_stops_scan_with_friends [OF n1 n2 n3 n4]
      rejected_group_stops_scan_with_friends [OF e1 e2 e3 e4] n5 e5
    by simp
qed

section \<open>A throw-in next to one friendly group\<close>

text \<open>A friendly scan that ends without a verdict has seen no group of more than two
  liberties, so the assertions of the throw-in check hold.\<close>

lemma friendly_loop_none_libs:
  "friendly_loop b color to gs s = Inr (None, s') \<Longrightarrow> g \<in> set gs \<Longrightarrow> libs b g \<le> 2"
proof (induction gs arbitrary: s)
  case Nil
  then show ?case by simp
next
  case (Cons h gs)
  show ?case
  proof (cases "libs b h > 2")
    case True
    with Cons.prems(1) show ?thesis by (auto split: if_splits sum.splits)
  next
    case False
    then obtain s1 where "friendly_loop b color to gs s1 = Inr (None, s')"
      using Cons.prems(1) by (auto simp: Let_def split: if_splits)
    from Cons.IH [OF this] Cons.prems(2) False show ?thesis by auto
  qed
qed

text \<open>
  Claim C7. When the first three analyzers are inconclusive, the throw-in check applies
  (fewer than two off-board neighbours, three neighbours that are enemy stones or
  off-board, the point false-eyelike for the opponent) and there is exactly one friendly
  neighbouring group \<open>g\<close>: the verdict is true when \<open>g\<close> has one liberty, false when it
  is a single stone otherwise, and in all other cases the check is inconclusive and the
  default true applies.
\<close>

theorem throwin_with_one_friend:
  assumes collected: "collect_state b to = Inr s0"
    and small: "groupcts s0 S_NONE \<le> 1"
    and friendly: "examine_friendly_groups b color to s0 = Inr (None, s)"
    and enemy: "examine_enemy_groups b color to s = None"
    and nakade: "setup_nakade_or_snapback b color to s = Inr None"
    and no_corner: "neighbor_count_at b to S_OFFBOARD < 2"
    and three: "neighbor_count_at b to (stone_other color)
                  + neighbor_count_at b to S_OFFBOARD = 3"
    and false_eye: "board_is_false_eyelike b to (stone_other color)"
    and one_friend: "groupids s color = [g]"
  shows "check_throwin b color to s =
           Inr (if libs b g = 1 then Some True
                else if group_is_onestone b g then Some False
                else None)
         \<and> is_bad_selfatari_slow b color to =
             Inr (if libs b g = 1 then True
                  else if group_is_onestone b g then False
                  else True)"
proof -
  have same: "groupids s = groupids s0"
    using examine_friendly_groupids [OF friendly] .
  then have "g \<in> set (groupids s0 color)"
    using one_friend by simp
  then have few: "libs b g \<le> 2"
    using friendly friendly_loop_none_libs
    by (simp add: examine_friendly_groups_def)
  have throwin: "check_throwin b color to s =
           Inr (if libs b g = 1 then Some True
                else if group_is_onestone b g then Some False
                else None)"
    using no_corner three false_eye one_friend few
    by (simp add: check_throwin_def groupcts_def)
  have "run_analyzers b color to s0 =
          Inr (if libs b g = 1 then True else if group_is_onestone b g then False else True)"
    using small friendly enemy nakade throwin by (simp add: run_analyzers_def)
  then have "is_bad_selfatari_slow b color to =
          Inr (if libs b g = 1 then True else if group_is_onestone b g then False else True)"
    using collected by (simp add: is_bad_selfatari_slow_def)
  with throwin show ?thesis by simp
qed

text \<open>The throw-in: the friend is a single stone of two liberties.\<close>

theorem throwin_with_one_friend_witness:
  "groupids th_state_scanned S_BLACK = [pt 4 5]
   \<and> libs th_board (pt 4 5) = 2 \<and> group_is_onestone th_board (pt 4 5)
   \<and> check_throwin th_board S_BLACK (pt 3 5) th_state_scanned = Inr (Some False)
   \<and> is_bad_selfatari_slow th_board S_BLACK (pt 3 5) = Inr False"
proof -
  have h2: "groupcts th_state S_NONE \<le> 1" by code_simp
  have h4: "examine_enemy_groups th_board S_BLACK (pt 3 5) th_state_scanned = None"
    by code_simp
  have h5: "setup_nakade_or_snapback th_board S_BLACK (pt 3 5) th_state_scanned = Inr None"
    by code_simp
  have h6: "neighbor_count_at th_board (pt 3 5) S_OFFBOARD < 2" by code_simp
  have h7: "neighbor_count_at th_board (pt 3 5) (stone_other S_BLACK)
                  + neighbor_count_at th_board (pt 3 5) S_OFFBOARD = 3" by code_simp
  have h8: "board_is_false_eyelike th_board (pt 3 5) (stone_other S_BLACK)" by code_simp
  have h9: "groupids th_state_scanned S_BLACK = [pt 4 5]" by code_simp
  have l: "libs th_board (pt 4 5) = 2" and o: "group_is_onestone th_board (pt 4 5)"
    by code_simp+
  show ?thesis
    using throwin_with_one_friend [OF th_collect h2 th_friendly h4 h5 h6 h7 h8 h9] h9 l o
    by simp
qed

section \<open>The cousin of a self-atari\<close>

text \<open>The groups the selector collects: one entry for every friendly neighbour whose
  group has exactly two liberties.\<close>

lemma cousin_groups_filter:
  "cousin_groups b color cs =
     map (group_at b) (filter (\<lambda>c. board_at b c = color \<and> libs b (group_at b c) = 2) cs)"
  by (induction cs) simp_all

lemma cousin_groups_length: "length (cousin_groups b color cs) \<le> length cs"
  by (simp add: cousin_groups_filter)

text \<open>
  A friendly scan that ends without a verdict has found the same other liberty for all
  groups of two liberties.
\<close>

lemma friendly_loop_recorded_lib2:
  assumes "friendly_loop b color to gs s = Inr (None, s')"
    and "distinct gs" and "0 \<notin> set gs"
    and "needs_more_lib s \<noteq> 0" and "needs_more_lib s \<notin> set gs"
    and "g \<in> set gs" and "libs b g = 2"
  shows "board_group_other_lib b g to = needs_more_lib_except s"
  using assms
proof (induction gs arbitrary: s)
  case Nil
  then show ?case by simp
next
  case (Cons x gs)
  show ?case
  proof (cases "libs b x = 1")
    case True
    then have "friendly_loop b color to gs s = Inr (None, s')" and "g \<noteq> x"
      using Cons.prems by auto
    then show ?thesis using Cons.IH [of s] Cons.prems by simp
  next
    case False
    let ?next = "s\<lparr>needs_more_lib := x,
                   needs_more_lib_except := board_group_other_lib b x to,
                   friend_has_no_libs := False\<rparr>"
    from False Cons.prems(1) have small: "\<not> libs b x > 2"
      by (auto split: if_splits sum.splits)
    with False Cons.prems(1) have
      same: "needs_more_lib_except s = board_group_other_lib b x to"
      and rest: "friendly_loop b color to gs ?next = Inr (None, s')"
      using Cons.prems(4,5) by (auto simp: Let_def split: if_splits)
    show ?thesis
    proof (cases "g = x")
      case True
      then show ?thesis using same by simp
    next
      case other: False
      have "x \<noteq> 0" using Cons.prems(3) by auto
      then have "board_group_other_lib b g to = needs_more_lib_except ?next"
        using Cons.IH [OF rest] Cons.prems other by simp
      then show ?thesis using same by simp
    qed
  qed
qed


lemma friendly_loop_same_lib2:
  assumes "friendly_loop b color to gs s = Inr (None, s')"
    and "distinct gs" and "0 \<notin> set gs" and "needs_more_lib s = 0"
    and "g \<in> set gs" and "libs b g = 2" and "h \<in> set gs" and "libs b h = 2"
  shows "board_group_other_lib b g to = board_group_other_lib b h to"
  using assms
proof (induction gs arbitrary: s)
  case Nil
  then show ?case by simp
next
  case (Cons x gs)
  show ?case
  proof (cases "libs b x = 1")
    case True
    let ?next = "if needs_more_lib s = 0 then s\<lparr>friend_has_no_libs := True\<rparr> else s"
    have "friendly_loop b color to gs ?next = Inr (None, s')" and "g \<noteq> x" "h \<noteq> x"
      using True Cons.prems by auto
    moreover have "needs_more_lib ?next = 0" using Cons.prems(4) by simp
    ultimately show ?thesis using Cons.IH [of ?next] Cons.prems by simp
  next
    case False
    let ?next = "s\<lparr>needs_more_lib := x,
                   needs_more_lib_except := board_group_other_lib b x to,
                   friend_has_no_libs := False\<rparr>"
    from False Cons.prems(1) have small: "\<not> libs b x > 2"
      by (auto split: if_splits sum.splits)
    with False Cons.prems(1) have
      rest: "friendly_loop b color to gs ?next = Inr (None, s')"
      by (auto simp: Let_def split: if_splits)
    have x: "x \<noteq> 0" "x \<notin> set gs" "distinct gs" "0 \<notin> set gs"
      using Cons.prems(2,3) by auto
    have recorded: "board_group_other_lib b k to = board_group_other_lib b x to"
      if "k \<in> set (x # gs)" "libs b k = 2" for k
    proof (cases "k = x")
      case True
      then show ?thesis by simp
    next
      case False
      then have "k \<in> set gs" using that(1) by simp
      then show ?thesis
        using friendly_loop_recorded_lib2 [OF rest x(3,4) _ _ _ that(2)] x(1,2) by simp
    qed
    show ?thesis
      using recorded [OF Cons.prems(5,6)] recorded [OF Cons.prems(7,8)] by simp
  qed
qed

text \<open>A friendly scan that returns true has met one friendly group only, of three
  liberties.\<close>

lemma three_liberty_suicide_one_friend:
  "three_liberty_suicide b g color to s = Inr True \<Longrightarrow> length (groupids s color) \<le> 1"
  by (auto simp: three_liberty_suicide_def groupcts_def Let_def
           split: list.splits if_splits option.splits)

lemma friendly_loop_true:
  assumes "friendly_loop b color to gs s = Inr (Some True, s')"
  shows "length (groupids s color) \<le> 1"
  using assms
proof (induction gs arbitrary: s)
  case Nil
  then show ?case by simp
next
  case (Cons x gs)
  show ?case
  proof (cases "libs b x = 1")
    case True
    let ?next = "if needs_more_lib s = 0 then s\<lparr>friend_has_no_libs := True\<rparr> else s"
    have "friendly_loop b color to gs ?next = Inr (Some True, s')"
      using True Cons.prems by simp
    from Cons.IH [OF this] show ?thesis by (simp split: if_splits)
  next
    case False
    show ?thesis
    proof (cases "libs b x > 2")
      case True
      then have "three_liberty_suicide b x color to s = Inr True"
        using False Cons.prems by (auto split: if_splits sum.splits)
      then show ?thesis by (rule three_liberty_suicide_one_friend)
    next
      case small: False
      let ?next = "s\<lparr>needs_more_lib := x,
                     needs_more_lib_except := board_group_other_lib b x to,
                     friend_has_no_libs := False\<rparr>"
      have "friendly_loop b color to gs ?next = Inr (Some True, s')"
        using False small Cons.prems by (auto simp: Let_def split: if_splits)
      from Cons.IH [OF this] show ?thesis by simp
    qed
  qed
qed

lemma friendly_loop_first_verdict:
  assumes "friendly_loop b color to [x] s = Inr (Some True, s')"
  shows "libs b x = 3"
  using assms by (auto simp: Let_def split: if_splits sum.splits)


lemma cousin_groups_member:
  "g \<in> set (cousin_groups b color cs) \<Longrightarrow>
     libs b g = 2 \<and> (\<exists>c \<in> set cs. board_at b c = color \<and> group_at b c = g)"
  by (auto simp: cousin_groups_filter)

lemma bad_point_cousins_agree:
  assumes bad: "is_bad_selfatari_slow b color coord = Inr True"
    and ids: "list_all (\<lambda>c. board_at b c = color \<longrightarrow> group_at b c \<noteq> 0)
                (foreach_neighbor b coord)"
    and g: "g \<in> set (cousin_groups b color (foreach_neighbor b coord))"
    and h: "h \<in> set (cousin_groups b color (foreach_neighbor b coord))"
  shows "board_group_other_lib b g coord = board_group_other_lib b h coord"
proof -
  from bad obtain s0 where s0: "collect_state b coord = Inr s0"
    and run: "run_analyzers b color coord s0 = Inr True"
    by (auto simp: is_bad_selfatari_slow_def split: sum.splits)
  have "\<not> isl (examine_friendly_groups b color coord s0)"
    using run by (cases "examine_friendly_groups b color coord s0")
      (simp_all add: run_analyzers_def split: if_splits)
  then obtain r s where scan: "examine_friendly_groups b color coord s0 = Inr (r, s)"
    by (cases "examine_friendly_groups b color coord s0") auto
  have verdict: "r \<noteq> Some False"
    using run scan by (auto simp: run_analyzers_def split: if_splits)
  have friendly: "friendly_loop b color coord (groupids s0 color) s0 = Inr (r, s)"
    using scan by (simp add: examine_friendly_groups_def)
  have bucket: "set (groupids s0 color)
                  = group_at b ` {c \<in> set (foreach_neighbor b coord). board_at b c = color}"
    using collect_state_groupids(1) [OF s0] .
  have two: "libs b g = 2" "libs b h = 2"
    using cousin_groups_member [OF g] cousin_groups_member [OF h] by blast+
  have member: "k \<in> set (groupids s0 color)"
    if "k \<in> set (cousin_groups b color (foreach_neighbor b coord))" for k
  proof -
    from cousin_groups_member [OF that] obtain c where
      "c \<in> set (foreach_neighbor b coord)" "board_at b c = color" "group_at b c = k"
      by blast
    then show ?thesis unfolding bucket by blast
  qed
  have zero: "0 \<notin> set (groupids s0 color)"
    using bucket ids by (auto simp: list_all_iff)
  show ?thesis
  proof (cases r)
    case None
    show ?thesis
      using friendly_loop_same_lib2 [OF friendly [unfolded None]
          collect_state_distinct [OF s0] zero collect_state_groupids(3) [OF s0]
          member [OF g] two(1) member [OF h] two(2)] .
  next
    case (Some v)
    then have true: "friendly_loop b color coord (groupids s0 color) s0 = Inr (Some True, s)"
      using friendly verdict by simp
    then have "length (groupids s0 color) \<le> 1" by (rule friendly_loop_true)
    then have "groupids s0 color = [g]"
      using member [OF g] by (cases "groupids s0 color") auto
    then have "friendly_loop b color coord [g] s0 = Inr (Some True, s)"
      using true by simp
    then have "libs b g = 3" by (rule friendly_loop_first_verdict)
    then show ?thesis using two(1) by simp
  qed
qed

text \<open>The selector returns the other liberty of the group it draws when that liberty is
  not a bad self-atari.\<close>

lemma cousin_returns_drawn:
  assumes four: "length (foreach_neighbor b coord) \<le> 4"
    and draw: "\<And>n. 0 < n \<Longrightarrow> fast_random n < n"
    and some: "cousin_groups b color (foreach_neighbor b coord) \<noteq> []"
    and good: "is_bad_selfatari b color
                 (board_group_other_lib b
                    (cousin_groups b color (foreach_neighbor b coord)
                       ! fast_random (length (cousin_groups b color (foreach_neighbor b coord))))
                    coord) = Inr False"
  shows "selfatari_cousin fast_random b color coord =
           Inr (board_group_other_lib b
                  (cousin_groups b color (foreach_neighbor b coord)
                     ! fast_random (length (cousin_groups b color (foreach_neighbor b coord))))
                  coord)"
proof -
  let ?groups = "cousin_groups b color (foreach_neighbor b coord)"
  have bound: "\<not> length ?groups > 4"
    using cousin_groups_length [of b color "foreach_neighbor b coord"] four by simp
  have "fast_random (length ?groups) < length ?groups"
    using some draw by simp
  then show ?thesis
    using bound some good by (simp add: selfatari_cousin_def Let_def)
qed

text \<open>
  Claim C8. At a point that is classified as a bad self-atari, \<^verbatim>\<open>selfatari_cousin\<close>
  returns \<open>pass\<close> when no friendly neighbouring group has exactly two liberties, and
  whenever some friendly neighbouring group of exactly two liberties has an other
  liberty that is not a bad self-atari, it returns that liberty: all these groups have
  the same other liberty, so it does not matter which one the random source draws. The
  point has at most four neighbours, the friendly stones next to it have group ids other
  than 0, and the random source draws a number below its argument.
\<close>

theorem cousin_of_bad_selfatari:
  assumes bad: "is_bad_selfatari b color coord = Inr True"
    and four: "length (foreach_neighbor b coord) \<le> 4"
    and ids: "list_all (\<lambda>c. board_at b c = color \<longrightarrow> group_at b c \<noteq> 0)
                (foreach_neighbor b coord)"
    and draw: "\<And>n. 0 < n \<Longrightarrow> fast_random n < n"
  shows "(\<not> list_ex (\<lambda>c. board_at b c = color \<and> libs b (group_at b c) = 2)
              (foreach_neighbor b coord)
            \<longrightarrow> selfatari_cousin fast_random b color coord = Inr pass)
       \<and> (c \<in> set (foreach_neighbor b coord) \<and> board_at b c = color
            \<and> libs b (group_at b c) = 2
            \<and> is_bad_selfatari b color (board_group_other_lib b (group_at b c) coord)
                = Inr False
            \<longrightarrow> selfatari_cousin fast_random b color coord
                  = Inr (board_group_other_lib b (group_at b c) coord))"
proof -
  let ?groups = "cousin_groups b color (foreach_neighbor b coord)"
  let ?drawn = "?groups ! fast_random (length ?groups)"
  have none: "selfatari_cousin fast_random b color coord = Inr pass"
    if "\<not> list_ex (\<lambda>c. board_at b c = color \<and> libs b (group_at b c) = 2)
            (foreach_neighbor b coord)"
  proof -
    have "filter (\<lambda>c. board_at b c = color \<and> libs b (group_at b c) = 2)
            (foreach_neighbor b coord) = []"
      using that by (auto simp: list_ex_iff filter_empty_conv)
    then have "?groups = []" by (simp add: cousin_groups_filter)
    then show ?thesis by (simp add: selfatari_cousin_def)
  qed
  have some: "selfatari_cousin fast_random b color coord
                = Inr (board_group_other_lib b (group_at b c) coord)"
    if c: "c \<in> set (foreach_neighbor b coord)" "board_at b c = color"
        "libs b (group_at b c) = 2"
      and good: "is_bad_selfatari b color (board_group_other_lib b (group_at b c) coord)
                   = Inr False"
  proof -
    have member: "group_at b c \<in> set ?groups"
      using c by (auto simp: cousin_groups_filter)
    then have nonempty: "?groups \<noteq> []" by auto
    then have "fast_random (length ?groups) < length ?groups"
      using draw by simp
    then have drawn: "?drawn \<in> set ?groups" by simp
    have slow: "is_bad_selfatari_slow b color coord = Inr True"
      using bad by (simp add: is_bad_selfatari_def)
    have same: "board_group_other_lib b (group_at b c) coord
                  = board_group_other_lib b ?drawn coord"
      using slow ids member drawn by (rule bad_point_cousins_agree)
    have "selfatari_cousin fast_random b color coord
            = Inr (board_group_other_lib b ?drawn coord)"
      using four draw nonempty good [unfolded same] by (rule cousin_returns_drawn)
    then show ?thesis using same by simp
  qed
  show ?thesis using none some by blast
qed

text \<open>
  The self-atari with a better cousin, and the suicide, which has no friendly neighbour.
\<close>

lemma first_draw_below: "0 < n \<Longrightarrow> first_draw n < n"
  by (simp add: first_draw_def)

theorem cousin_of_bad_selfatari_witness:
  "is_bad_selfatari ext_board S_BLACK (pt 2 3) = Inr True
   \<and> pt 3 3 \<in> set (foreach_neighbor ext_board (pt 2 3))
   \<and> board_at ext_board (pt 3 3) = S_BLACK
   \<and> libs ext_board (group_at ext_board (pt 3 3)) = 2
   \<and> board_group_other_lib ext_board (group_at ext_board (pt 3 3)) (pt 2 3) = pt 4 3
   \<and> is_bad_selfatari ext_board S_BLACK (pt 4 3) = Inr False
   \<and> selfatari_cousin first_draw ext_board S_BLACK (pt 2 3) = Inr (pt 4 3)
   \<and> is_bad_selfatari su_board S_BLACK (pt 3 2) = Inr True
   \<and> \<not> list_ex (\<lambda>c. board_at su_board c = S_BLACK \<and> libs su_board (group_at su_board c) = 2)
          (foreach_neighbor su_board (pt 3 2))
   \<and> selfatari_cousin first_draw su_board S_BLACK (pt 3 2) = Inr pass"
proof -
  have bad: "is_bad_selfatari ext_board S_BLACK (pt 2 3) = Inr True" by code_simp
  have four: "length (foreach_neighbor ext_board (pt 2 3)) \<le> 4" by code_simp
  have ids: "list_all
      (\<lambda>c. board_at ext_board c = S_BLACK \<longrightarrow> group_at ext_board c \<noteq> 0)
      (foreach_neighbor ext_board (pt 2 3))" by code_simp
  have c: "pt 3 3 \<in> set (foreach_neighbor ext_board (pt 2 3))"
    "board_at ext_board (pt 3 3) = S_BLACK"
    "libs ext_board (group_at ext_board (pt 3 3)) = 2" by code_simp+
  have other: "board_group_other_lib ext_board (group_at ext_board (pt 3 3)) (pt 2 3) = pt 4 3"
    by code_simp
  have good: "is_bad_selfatari ext_board S_BLACK (pt 4 3) = Inr False" by code_simp
  have su_bad: "is_bad_selfatari su_board S_BLACK (pt 3 2) = Inr True" by code_simp
  have su_four: "length (foreach_neighbor su_board (pt 3 2)) \<le> 4" by code_simp
  have su_ids: "list_all
      (\<lambda>c. board_at su_board c = S_BLACK \<longrightarrow> group_at su_board c \<noteq> 0)
      (foreach_neighbor su_board (pt 3 2))" by code_simp
  have su_none: "\<not> list_ex
      (\<lambda>c. board_at su_board c = S_BLACK \<and> libs su_board (group_at su_board c) = 2)
      (foreach_neighbor su_board (pt 3 2))" by code_simp
  have ext: "selfatari_cousin first_draw ext_board S_BLACK (pt 2 3) = Inr (pt 4 3)"
    using cousin_of_bad_selfatari [OF bad four ids first_draw_below, of "pt 3 3"]
      c other good by simp
  have su: "selfatari_cousin first_draw su_board S_BLACK (pt 3 2) = Inr pass"
    using cousin_of_bad_selfatari [OF su_bad su_four su_ids first_draw_below] su_none
    by simp
  show ?thesis using bad c other good ext su_bad su_none su by simp
qed

text \<open>
  At a point that is not a bad self-atari the groups can have different other liberties.
  At \<open>pt 3 3\<close> between the two friends the random source draws the first stone, whose
  other liberty \<open>pt 3 1\<close> is a bad self-atari, and the selector returns \<open>pass\<close>, though
  the other liberty \<open>pt 3 5\<close> of the second stone is not a bad self-atari.
\<close>

lemma cousin_at_good_point:
  "is_bad_selfatari two_board S_BLACK (pt 3 3) = Inr False
   \<and> cousin_groups two_board S_BLACK (foreach_neighbor two_board (pt 3 3)) = [pt 3 2, pt 3 4]
   \<and> board_group_other_lib two_board (pt 3 4) (pt 3 3) = pt 3 5
   \<and> is_bad_selfatari two_board S_BLACK (pt 3 5) = Inr False
   \<and> first_draw 2 = 0
   \<and> board_group_other_lib two_board (pt 3 2) (pt 3 3) = pt 3 1
   \<and> is_bad_selfatari two_board S_BLACK (pt 3 1) = Inr True
   \<and> selfatari_cousin first_draw two_board S_BLACK (pt 3 3) = Inr pass"
  by code_simp

section \<open>The order in which neighbours are visited\<close>














section \<open>The assertion of three\_liberty\_suicide\<close>

lemma other_libs_facts:
  assumes "other_libs b g to = [l0, l1]"
    and "distinct [lib b g 0, lib b g 1, lib b g 2]"
  shows "l0 \<noteq> l1" and "l0 \<in> set [lib b g 0, lib b g 1, lib b g 2]"
    and "l1 \<in> set [lib b g 0, lib b g 1, lib b g 2]"
proof -
  let ?all = "[lib b g 0, lib b g 1, lib b g 2]"
  have eq: "filter (\<lambda>l. l \<noteq> to) ?all = [l0, l1]"
    using assms(1) by (simp only: other_libs_def)
  have "distinct (filter (\<lambda>l. l \<noteq> to) ?all)"
    using assms(2) by (rule distinct_filter)
  then show "l0 \<noteq> l1" by (simp only: eq) simp
  have "set [l0, l1] \<subseteq> set ?all"
    using filter_is_subset [of "\<lambda>l. l \<noteq> to" ?all] by (simp only: eq)
  then show "l0 \<in> set ?all" "l1 \<in> set ?all" by simp_all
qed

lemma two_empty_neighbors:
  assumes "l0 \<noteq> l1"
    and "l0 \<in> set (foreach_neighbor b to)" "l1 \<in> set (foreach_neighbor b to)"
    and "board_at b l0 = S_NONE" "board_at b l1 = S_NONE"
  shows "2 \<le> length (empty_neighbors b to)"
proof -
  have "{l0, l1} \<subseteq> set (empty_neighbors b to)"
    using assms(2-5) by (simp add: empty_neighbors_def)
  then have "card {l0, l1} \<le> card (set (empty_neighbors b to))"
    by (rule card_mono [OF finite_set])
  also have "\<dots> \<le> length (empty_neighbors b to)" by (rule card_length)
  finally show ?thesis using assms(1) by simp
qed

text \<open>
  Claim C10. On a board whose answers fit together (the liberties of the group are three
  different empty points, a point adjacent to the candidate point is among its
  neighbours, and the immediate liberty count of the candidate point is the number of its
  empty neighbours), the assertion after the first guard of
  \<^verbatim>\<open>three_liberty_suicide\<close> never fails: when both other liberties are adjacent to
  the candidate point, the count is at least 2 and the guard has returned.
\<close>

theorem three_liberty_assertion_holds:
  assumes distinct_libs: "distinct [lib b g 0, lib b g 1, lib b g 2]"
    and empty: "list_all (\<lambda>l. board_at b l = S_NONE) [lib b g 0, lib b g 1, lib b g 2]"
    and adjacent: "\<And>l. coord_is_adjecent b l to \<Longrightarrow> l \<in> set (foreach_neighbor b to)"
    and count: "immediate_liberty_count b to = int (length (empty_neighbors b to))"
  shows "three_liberty_suicide b g color to s \<noteq> Inl Assert_Fail"
proof (cases "\<exists>l0 l1. other_libs b g to = [l0, l1]")
  case False
  then have "three_liberty_suicide b g color to s = Inl Out_Of_Bounds"
    by (auto simp: three_liberty_suicide_def split: list.splits)
  then show ?thesis by simp
next
  case True
  then obtain l0 l1 where two: "other_libs b g to = [l0, l1]" by blast
  show ?thesis
  proof (cases "coord_is_adjecent b l0 to \<and> coord_is_adjecent b l1 to")
    case False
    then show ?thesis
      using two by (auto simp: three_liberty_suicide_def Let_def split: option.splits)
  next
    case both: True
    note facts = other_libs_facts [OF two distinct_libs]
    have "board_at b l0 = S_NONE" "board_at b l1 = S_NONE"
      using empty facts(2,3) by (auto simp: list_all_iff)
    moreover have "l0 \<in> set (foreach_neighbor b to)" "l1 \<in> set (foreach_neighbor b to)"
      using both adjacent by blast+
    ultimately have "2 \<le> length (empty_neighbors b to)"
      using facts(1) by (intro two_empty_neighbors)
    then have "immediate_liberty_count b to - of_bool True > 0"
      using count by simp
    then have "three_liberty_suicide b g color to s = Inr False"
      using two both by (simp add: three_liberty_suicide_def)
    then show ?thesis by simp
  qed
qed

lemma eye_adjacent:
  "coord_is_adjecent eye_first_board l (pt 3 2) \<Longrightarrow>
     l \<in> set (foreach_neighbor eye_first_board (pt 3 2))"
  by (auto simp: eye_first_board_def grid_board_def grid_neighbors_def pt_def)

theorem three_liberty_assertion_holds_witness:
  "distinct [lib eye_first_board (pt 2 1) 0, lib eye_first_board (pt 2 1) 1,
             lib eye_first_board (pt 2 1) 2]
   \<and> immediate_liberty_count eye_first_board (pt 3 2)
        = int (length (empty_neighbors eye_first_board (pt 3 2)))
   \<and> three_liberty_suicide eye_first_board (pt 2 1) S_BLACK (pt 3 2) eye_state
        \<noteq> Inl Assert_Fail"
proof -
  have h1: "distinct [lib eye_first_board (pt 2 1) 0, lib eye_first_board (pt 2 1) 1,
             lib eye_first_board (pt 2 1) 2]" by code_simp
  have h2: "list_all (\<lambda>l. board_at eye_first_board l = S_NONE)
     [lib eye_first_board (pt 2 1) 0, lib eye_first_board (pt 2 1) 1,
      lib eye_first_board (pt 2 1) 2]" by code_simp
  have h4: "immediate_liberty_count eye_first_board (pt 3 2)
        = int (length (empty_neighbors eye_first_board (pt 3 2)))" by code_simp
  show ?thesis
    using three_liberty_assertion_holds [OF h1 h2 eye_adjacent h4, of S_BLACK eye_state] h1 h4
    by simp
qed

end
